theory Spec2Isabelle
  imports Main "HOL-Library.Sublist"
begin

text \<open>
  The repository has two Python modules. \<^verbatim>\<open>save_ibm_simulators.py\<close> (the Builder) asks a
  remote service for two backends, builds a simulator for each of ten simulation methods
  and writes each with \<^verbatim>\<open>dill\<close> to a file whose path is made of the backend and the
  method. \<^verbatim>\<open>qiskit_quantum_simulator.py\<close> (the Runner) is a class that checks a backend
  name and a method name, loads the file of that pair, and transpiles and runs circuits
  on the loaded simulator.

  Both are embedded as functions over explicit state. Exceptions are values of a sum
  type. What the operating system, the remote service and the SDK answer is a parameter
  of the functions, so that every theorem holds for whatever they answer.
\<close>

section \<open>Python library functions used by both modules\<close>

text \<open>
  Both modules build file names with \<^verbatim>\<open>os.path.join\<close>. On POSIX this is
  \<^verbatim>\<open>posixpath.join(a, *p)\<close>, a loop over the components \<open>p\<close>:
  \<^verbatim>\<open>
      for b in p:
          if b.startswith('/'):                  path = b
          elif not path or path.endswith('/'):   path += b
          else:                                  path += '/' + b
  \<close>
  \<open>join_component\<close> is one round of that loop and \<open>os_path_join\<close> the loop.
\<close>

definition join_component :: "string \<Rightarrow> string \<Rightarrow> string" where
  "join_component path b =
     (if prefix ''/'' b then b
      else if path = [] \<or> suffix ''/'' path then path @ b
      else path @ ''/'' @ b)"

definition os_path_join :: "string \<Rightarrow> string list \<Rightarrow> string" where
  "os_path_join a p = foldl join_component a p"

text \<open>
  \<^verbatim>\<open>s.replace(old, new)\<close>: every non-overlapping occurrence of \<open>old\<close>, found from
  the left, is replaced. With an empty \<open>old\<close> Python puts \<open>new\<close> before every
  character and at the end.
\<close>

function str_replace :: "string \<Rightarrow> string \<Rightarrow> string \<Rightarrow> string" where
  "str_replace old new [] = (if old = [] then new else [])"
| "str_replace old new (c # cs) =
     (if old = [] then new @ c # str_replace old new cs
      else if prefix old (c # cs) then new @ str_replace old new (drop (length old) (c # cs))
      else c # str_replace old new cs)"
  by pat_completeness auto
termination
  by (relation "measure (\<lambda>(old, new, s). length s)") auto

text \<open>The apostrophe that the f-strings put around names.\<close>

abbreviation (input) apos :: string where
  "apos \<equiv> [CHR 0x27]"

section \<open>The fixed vocabularies\<close>

text \<open>The two lists of \<^verbatim>\<open>save_ibm_simulators\<close> (save_ibm_simulators.py, lines 30-43).\<close>

definition target_backends :: "string list" where
  "target_backends = [''ibm_brisbane'', ''ibm_sherbrooke'']"

definition simulation_methods :: "string list" where
  "simulation_methods =
     [''aer_simulator_statevector'',
      ''aer_simulator_density_matrix'',
      ''aer_simulator_stabilizer'',
      ''aer_simulator_matrix_product_state'',
      ''aer_simulator_extended_stabilizer'',
      ''aer_simulator_unitary'',
      ''aer_simulator_superop'',
      ''aer_simulator_statevector_gpu'',
      ''aer_simulator_density_matrix_gpu'',
      ''aer_simulator_unitary_gpu'']"

text \<open>
  The two class-level sets of \<^verbatim>\<open>QiskitQuantumSimulator\<close>
  (qiskit_quantum_simulator.py, lines 24-40).
\<close>

definition SUPPORTED_SIMULATION_METHODS :: "string set" where
  "SUPPORTED_SIMULATION_METHODS =
     {''aer_simulator_statevector'',
      ''aer_simulator_density_matrix'',
      ''aer_simulator_stabilizer'',
      ''aer_simulator_matrix_product_state'',
      ''aer_simulator_extended_stabilizer'',
      ''aer_simulator_unitary'',
      ''aer_simulator_superop'',
      ''aer_simulator_statevector_gpu'',
      ''aer_simulator_density_matrix_gpu'',
      ''aer_simulator_unitary_gpu''}"

definition AVAILABLE_BACKENDS :: "string set" where
  "AVAILABLE_BACKENDS = {''ibm_brisbane'', ''ibm_sherbrooke''}"

section \<open>Artifact paths\<close>

text \<open>
  The Builder (save_ibm_simulators.py, lines 46, 62, 72-73) joins one component at a
  time; the Runner (qiskit_quantum_simulator.py, lines 99-101) joins the folder in one
  call and the file name in a second.
\<close>

definition filename :: "string \<Rightarrow> string" where
  "filename method = method @ ''.dill''"

definition save_filepath :: "string \<Rightarrow> string \<Rightarrow> string \<Rightarrow> string" where
  "save_filepath base_path backend_name method =
     (let root_dir = os_path_join base_path [''ibm_simulators''];
          backend_dir = os_path_join root_dir [backend_name]
      in os_path_join backend_dir [filename method])"

definition folder_path :: "string \<Rightarrow> string \<Rightarrow> string" where
  "folder_path base_path ibm_backend_name =
     os_path_join base_path [''ibm_simulators'', ibm_backend_name]"

definition load_filepath :: "string \<Rightarrow> string \<Rightarrow> string \<Rightarrow> string" where
  "load_filepath base_path ibm_backend_name method =
     os_path_join (folder_path base_path ibm_backend_name) [filename method]"

text \<open>The layout as the specification writes it down.\<close>

definition spec_layout_path :: "string \<Rightarrow> string \<Rightarrow> string \<Rightarrow> string" where
  "spec_layout_path base_path backend_name method_name =
     base_path @ ''/ibm_simulators/'' @ backend_name @ ''/'' @ method_name @ ''.dill''"

section \<open>Device class and representation name\<close>

text \<open>save_ibm_simulators.py, lines 67-68.\<close>

definition device :: "string \<Rightarrow> string" where
  "device method = (if suffix ''_gpu'' method then ''GPU'' else ''CPU'')"

definition base_method :: "string \<Rightarrow> string" where
  "base_method method = str_replace ''_gpu'' '''' (str_replace ''aer_simulator_'' '''' method)"

text \<open>Stripping a prefix and a suffix, as the specification words it.\<close>

definition spec_strip_prefix :: "string \<Rightarrow> string \<Rightarrow> string" where
  "spec_strip_prefix p s = (if prefix p s then drop (length p) s else s)"

definition spec_strip_suffix :: "string \<Rightarrow> string \<Rightarrow> string" where
  "spec_strip_suffix x s = (if suffix x s then take (length s - length x) s else s)"

section \<open>Python values, exceptions and the world outside\<close>

text \<open>
  Exceptions are values. Every constructor stands for a class derived from
  \<^verbatim>\<open>Exception\<close>, so \<^verbatim>\<open>except Exception\<close> catches each of them; \<open>Error\<close> is any
  other such class that a library raises. \<open>str_exn\<close> is \<^verbatim>\<open>str(e)\<close>, the text an
  f-string puts for \<^verbatim>\<open>{e}\<close>.
\<close>

datatype exn =
    ValueError string
  | TypeError string
  | IOError string
  | RuntimeError string
  | FileNotFoundError string
  | AttributeError string
  | Error string

fun str_exn :: "exn \<Rightarrow> string" where
  "str_exn (ValueError m) = m"
| "str_exn (TypeError m) = m"
| "str_exn (IOError m) = m"
| "str_exn (RuntimeError m) = m"
| "str_exn (FileNotFoundError m) = m"
| "str_exn (AttributeError m) = m"
| "str_exn (Error m) = m"

text \<open>
  The objects of the external SDK (service, backend handle, simulator, circuit, sampler,
  job) are opaque to both modules: an identity and the names of the attributes it has,
  which is all that \<^verbatim>\<open>hasattr\<close> looks at.
\<close>

datatype pyobj = PyObj (attrs: "string list") (ident: nat)

definition hasattr :: "pyobj \<Rightarrow> string \<Rightarrow> bool" where
  "hasattr obj name = (name \<in> set (attrs obj))"

section \<open>The Runner: class QiskitQuantumSimulator\<close>

text \<open>
  What the interpreter and the libraries supply to the class:
  \<^item> \<open>getenv_base_path\<close>: the value of \<^verbatim>\<open>os.getenv("IBM_SIMULATORS_BASE_PATH")\<close>, read
    once when the class is created; \<open>None\<close> when the variable is not set;
  \<^item> \<open>dill_load\<close>: what \<^verbatim>\<open>dill.load\<close> makes of the bytes of a file, an object or an
    exception;
  \<^item> \<open>str_of_set\<close>: \<^verbatim>\<open>str\<close> of a set of strings, whose element order depends on the
    interpreter's hash seed.
  The file system is a map from the path of each readable file to its bytes.
\<close>

record host =
  getenv_base_path :: "string option"
  dill_load :: "string \<Rightarrow> exn + pyobj"
  str_of_set :: "string set \<Rightarrow> string"

type_synonym filesystem = "string \<rightharpoonup> string"

text \<open>
  The instance. Its three private attributes are unset until the setters assign them.
\<close>

record runner =
  attr_ibm_backend_name :: "string option"
  attr_simulation_method :: "string option"
  attr_simulator :: "pyobj option"

definition new_runner :: runner where
  "new_runner = \<lparr>attr_ibm_backend_name = None, attr_simulation_method = None,
     attr_simulator = None\<rparr>"

definition missing_attribute :: "string \<Rightarrow> exn" where
  "missing_attribute name =
     AttributeError (apos @ ''QiskitQuantumSimulator'' @ apos @ '' object has no attribute ''
       @ apos @ name @ apos)"

text \<open>Reading a private attribute raises \<^verbatim>\<open>AttributeError\<close> while it is unset.\<close>

definition read_ibm_backend_name :: "runner \<Rightarrow> exn + string" where
  "read_ibm_backend_name self =
     (case attr_ibm_backend_name self of
        None \<Rightarrow> Inl (missing_attribute ''_QiskitQuantumSimulator__ibm_backend_name'')
      | Some name \<Rightarrow> Inr name)"

definition read_simulation_method :: "runner \<Rightarrow> exn + string" where
  "read_simulation_method self =
     (case attr_simulation_method self of
        None \<Rightarrow> Inl (missing_attribute ''_QiskitQuantumSimulator__simulation_method'')
      | Some method \<Rightarrow> Inr method)"

definition read_simulator :: "runner \<Rightarrow> exn + pyobj" where
  "read_simulator self =
     (case attr_simulator self of
        None \<Rightarrow> Inl (missing_attribute ''_QiskitQuantumSimulator__simulator'')
      | Some sim \<Rightarrow> Inr sim)"

text \<open>\<^verbatim>\<open>open(filepath, 'rb')\<close> and reading the whole file.\<close>

definition open_rb :: "filesystem \<Rightarrow> string \<Rightarrow> exn + string" where
  "open_rb fs filepath =
     (case fs filepath of
        None \<Rightarrow> Inl (FileNotFoundError
                 (''[Errno 2] No such file or directory: '' @ apos @ filepath @ apos))
      | Some bytes \<Rightarrow> Inr bytes)"

text \<open>
  \<^verbatim>\<open>__load_simulator\<close> (lines 53-62). \<open>load_simulator_try\<close> is the body of the
  \<^verbatim>\<open>try\<close>, \<open>load_simulator\<close> adds the handler, which wraps every exception of the
  body, the \<^verbatim>\<open>TypeError\<close> of line 59 included.
\<close>

definition load_simulator_try :: "host \<Rightarrow> filesystem \<Rightarrow> string \<Rightarrow> exn + pyobj" where
  "load_simulator_try h fs filepath =
     (case open_rb fs filepath of
        Inl e \<Rightarrow> Inl e
      | Inr bytes \<Rightarrow>
          (case dill_load h bytes of
             Inl e \<Rightarrow> Inl e
           | Inr simulator \<Rightarrow>
               if \<not> hasattr simulator ''run''
               then Inl (TypeError ''Loaded object is not a valid AerSimulator.'')
               else Inr simulator))"

definition load_simulator :: "host \<Rightarrow> filesystem \<Rightarrow> string \<Rightarrow> exn + pyobj" where
  "load_simulator h fs filepath =
     (case load_simulator_try h fs filepath of
        Inl e \<Rightarrow> Inl (IOError (''Failed to load AerSimulator from '' @ filepath @ '': ''
                   @ str_exn e))
      | Inr simulator \<Rightarrow> Inr simulator)"

text \<open>\<^verbatim>\<open>__set_ibm_backend\<close> (lines 64-79).\<close>

definition set_ibm_backend :: "host \<Rightarrow> runner \<Rightarrow> string \<Rightarrow> exn + runner" where
  "set_ibm_backend h self ibm_backend =
     (if ibm_backend \<notin> AVAILABLE_BACKENDS
      then Inl (ValueError
             (''Unsupported IBM backend: '' @ apos @ ibm_backend @ apos @ ''.\<newline>''
              @ ''Available backends: '' @ str_of_set h AVAILABLE_BACKENDS))
      else Inr (self\<lparr>attr_ibm_backend_name := Some ibm_backend\<rparr>))"

text \<open>
  \<^verbatim>\<open>__set_simulator\<close> (lines 81-103). The arguments of \<^verbatim>\<open>os.path.join\<close> are
  evaluated first, so an unset backend attribute raises before the join does; the join
  raises \<^verbatim>\<open>TypeError\<close> when the base path is \<^verbatim>\<open>None\<close>.
\<close>

definition set_simulator :: "host \<Rightarrow> filesystem \<Rightarrow> runner \<Rightarrow> string \<Rightarrow> exn + runner" where
  "set_simulator h fs self method =
     (if method \<notin> SUPPORTED_SIMULATION_METHODS
      then Inl (ValueError
             (''Unsupported simulation method: '' @ apos @ method @ apos @ ''.\<newline>''
              @ ''Supported methods: '' @ str_of_set h SUPPORTED_SIMULATION_METHODS))
      else
        let self1 = self\<lparr>attr_simulation_method := Some method\<rparr> in
        (case read_ibm_backend_name self1 of
           Inl e \<Rightarrow> Inl e
         | Inr ibm_backend_name \<Rightarrow>
             (case getenv_base_path h of
                None \<Rightarrow> Inl (TypeError
                  ''expected str, bytes or os.PathLike object, not NoneType'')
              | Some base_path \<Rightarrow>
                  (case load_simulator h fs (load_filepath base_path ibm_backend_name method) of
                     Inl e \<Rightarrow> Inl e
                   | Inr simulator \<Rightarrow> Inr (self1\<lparr>attr_simulator := Some simulator\<rparr>)))))"

text \<open>\<^verbatim>\<open>__init__\<close> (lines 42-51): the backend is set first, then the simulator.\<close>

definition init :: "host \<Rightarrow> filesystem \<Rightarrow> string \<Rightarrow> string \<Rightarrow> exn + runner" where
  "init h fs ibm_backend simulation_method =
     (case set_ibm_backend h new_runner ibm_backend of
        Inl e \<Rightarrow> Inl e
      | Inr self \<Rightarrow> set_simulator h fs self simulation_method)"

text \<open>The accessors (lines 115-136).\<close>

definition available_simulation_methods :: "runner \<Rightarrow> string set" where
  "available_simulation_methods self = SUPPORTED_SIMULATION_METHODS"

definition available_backends :: "runner \<Rightarrow> string set" where
  "available_backends self = AVAILABLE_BACKENDS"

definition ibm_backend :: "runner \<Rightarrow> exn + string" where
  "ibm_backend self = read_ibm_backend_name self"

definition simulator :: "runner \<Rightarrow> exn + pyobj" where
  "simulator self = read_simulator self"

definition simulation_method :: "runner \<Rightarrow> exn + string" where
  "simulation_method self = read_simulation_method self"

section \<open>Effects: the world both modules act on\<close>

text \<open>
  The world is the artifact store (the bytes of each regular file, by path), the lines
  printed so far, the calls made to the operating system and to the external SDK, in
  order, and the state \<open>outside\<close> of everything beyond the program (the remote service,
  the disk, the SDK's own state), of a type left open.
\<close>

datatype call =
    Call_makedirs string
  | Call_QiskitRuntimeService string string
  | Call_backend pyobj string
  | Call_from_backend pyobj
  | Call_set_options pyobj string string
  | Call_open_wb string
  | Call_dump pyobj string
  | Call_transpile pyobj pyobj nat
  | Call_Sampler pyobj
  | Call_sampler_run pyobj "pyobj list"

record 'x world =
  files :: filesystem
  stdout :: "string list"
  calls :: "call list"
  outside :: 'x

text \<open>
  What the operating system and the SDK answer. Each answer depends on the arguments and
  on the state outside, which the call may change, so that two calls with the same
  arguments need not answer alike. An answer is a value or an exception;
  \<open>dill_dump\<close> answers with the bytes that reached the file and the exception that
  stopped it, if one did; \<open>set_options\<close> changes the simulator in place and answers with
  the simulator as it is afterwards.
\<close>

record 'x sdk =
  os_makedirs :: "string \<Rightarrow> 'x \<Rightarrow> (exn + unit) \<times> 'x"
  QiskitRuntimeService :: "string \<Rightarrow> string \<Rightarrow> 'x \<Rightarrow> (exn + pyobj) \<times> 'x"
  service_backend :: "pyobj \<Rightarrow> string \<Rightarrow> 'x \<Rightarrow> (exn + pyobj) \<times> 'x"
  from_backend :: "pyobj \<Rightarrow> 'x \<Rightarrow> (exn + pyobj) \<times> 'x"
  set_options :: "pyobj \<Rightarrow> string \<Rightarrow> string \<Rightarrow> 'x \<Rightarrow> (exn + pyobj) \<times> 'x"
  open_wb :: "string \<Rightarrow> 'x \<Rightarrow> (exn + unit) \<times> 'x"
  dill_dump :: "pyobj \<Rightarrow> 'x \<Rightarrow> (string \<times> exn option) \<times> 'x"
  transpile :: "pyobj \<Rightarrow> pyobj \<Rightarrow> nat \<Rightarrow> 'x \<Rightarrow> (exn + pyobj) \<times> 'x"
  Sampler :: "pyobj \<Rightarrow> 'x \<Rightarrow> (exn + pyobj) \<times> 'x"
  sampler_run :: "pyobj \<Rightarrow> pyobj list \<Rightarrow> 'x \<Rightarrow> (exn + pyobj) \<times> 'x"

definition extern :: "call \<Rightarrow> ('x \<Rightarrow> 'a \<times> 'x) \<Rightarrow> 'x world \<Rightarrow> 'a \<times> 'x world" where
  "extern c f w =
     (case f (outside w) of (r, x) \<Rightarrow> (r, w\<lparr>calls := calls w @ [c], outside := x\<rparr>))"

definition print :: "string \<Rightarrow> 'x world \<Rightarrow> 'x world" where
  "print line w = w\<lparr>stdout := stdout w @ [line]\<rparr>"

text \<open>
  Three readings of the record of calls: the names of the backends asked of the service,
  the backend handles from which a simulator was asked, and the simulators configured
  with the representation and the device given to each, all in the order of the calls.
\<close>

definition backend_requests :: "call list \<Rightarrow> string list" where
  "backend_requests cs = [b. Call_backend s b \<leftarrow> cs]"

definition from_backend_calls :: "call list \<Rightarrow> pyobj list" where
  "from_backend_calls cs = [b. Call_from_backend b \<leftarrow> cs]"

definition set_options_calls :: "call list \<Rightarrow> (pyobj \<times> string \<times> string) list" where
  "set_options_calls cs = [(sim, rep, dev). Call_set_options sim rep dev \<leftarrow> cs]"

section \<open>The Runner: transpiling and running a circuit\<close>

text \<open>\<^verbatim>\<open>transpile_circuit\<close> (lines 105-107).\<close>

definition transpile_circuit ::
  "'x sdk \<Rightarrow> runner \<Rightarrow> pyobj \<Rightarrow> 'x world \<Rightarrow> (exn + pyobj) \<times> 'x world" where
  "transpile_circuit sdk self circuit w =
     (case read_simulator self of
        Inl e \<Rightarrow> (Inl e, w)
      | Inr sim \<Rightarrow> extern (Call_transpile circuit sim 1) (transpile sdk circuit sim 1) w)"

text \<open>\<^verbatim>\<open>run\<close> (lines 109-113).\<close>

definition run ::
  "'x sdk \<Rightarrow> runner \<Rightarrow> pyobj \<Rightarrow> 'x world \<Rightarrow> (exn + pyobj) \<times> 'x world" where
  "run sdk self circuit w =
     (case transpile_circuit sdk self circuit w of
        (Inl e, w1) \<Rightarrow> (Inl e, w1)
      | (Inr transpiled, w1) \<Rightarrow>
          (case read_simulator self of
             Inl e \<Rightarrow> (Inl e, w1)
           | Inr sim \<Rightarrow>
               (case extern (Call_Sampler sim) (Sampler sdk sim) w1 of
                  (Inl e, w2) \<Rightarrow> (Inl e, w2)
                | (Inr sampler, w2) \<Rightarrow>
                    extern (Call_sampler_run sampler [transpiled])
                      (sampler_run sdk sampler [transpiled]) w2)))"

section \<open>The Builder: save_ibm_simulators\<close>

text \<open>
  The inner \<^verbatim>\<open>try\<close> (lines 67-78) for one method, in its two parts. The first
  (lines 67-70) builds the simulator from the backend handle and configures it with the
  representation and the device derived from the method name.
\<close>

definition construct_simulator ::
  "'x sdk \<Rightarrow> pyobj \<Rightarrow> string \<Rightarrow> 'x world \<Rightarrow> (exn + pyobj) \<times> 'x world" where
  "construct_simulator sdk backend method w =
     (case extern (Call_from_backend backend) (from_backend sdk backend) w of
        (Inl e, w1) \<Rightarrow> (Inl e, w1)
      | (Inr sim, w1) \<Rightarrow>
          extern (Call_set_options sim (base_method method) (device method))
            (set_options sdk sim (base_method method) (device method)) w1)"

text \<open>
  The second part (lines 74-75) writes the file. Opening it for writing creates it
  empty, or empties the one that is there; what the serializer wrote is in the file when
  the \<^verbatim>\<open>with\<close> block is left, by an exception or not.
\<close>

definition serialize_simulator ::
  "'x sdk \<Rightarrow> pyobj \<Rightarrow> string \<Rightarrow> 'x world \<Rightarrow> (exn + unit) \<times> 'x world" where
  "serialize_simulator sdk sim filepath w =
     (case extern (Call_open_wb filepath) (open_wb sdk filepath) w of
        (Inl e, w1) \<Rightarrow> (Inl e, w1)
      | (Inr _, w1) \<Rightarrow>
          let w2 = w1\<lparr>files := (files w1)(filepath \<mapsto> [])\<rparr> in
          (case extern (Call_dump sim filepath) (dill_dump sdk sim) w2 of
             ((written, raised), w3) \<Rightarrow>
               ((case raised of Some e \<Rightarrow> Inl e | None \<Rightarrow> Inr ()),
                w3\<lparr>files := (files w3)(filepath \<mapsto> written)\<rparr>)))"

definition save_method_try ::
  "'x sdk \<Rightarrow> bool \<Rightarrow> pyobj \<Rightarrow> string \<Rightarrow> string \<Rightarrow> 'x world \<Rightarrow> (exn + unit) \<times> 'x world" where
  "save_method_try sdk verbose backend backend_dir method w =
     (case construct_simulator sdk backend method w of
        (Inl e, w1) \<Rightarrow> (Inl e, w1)
      | (Inr sim, w1) \<Rightarrow>
          let filepath = os_path_join backend_dir [filename method] in
          (case serialize_simulator sdk sim filepath w1 of
             (Inl e, w2) \<Rightarrow> (Inl e, w2)
           | (Inr _, w2) \<Rightarrow>
               (Inr (),
                if verbose
                then print (''Saved simulator '' @ apos @ filepath @ apos) w2
                else w2)))"

text \<open>The inner \<^verbatim>\<open>try\<close> with its handler (lines 66-82).\<close>

definition save_method ::
  "'x sdk \<Rightarrow> bool \<Rightarrow> string \<Rightarrow> pyobj \<Rightarrow> string \<Rightarrow> string \<Rightarrow> 'x world \<Rightarrow> 'x world" where
  "save_method sdk verbose backend_name backend backend_dir method w =
     (case save_method_try sdk verbose backend backend_dir method w of
        (Inl e, w1) \<Rightarrow>
          if verbose
          then print (''Failed to save simulator for '' @ apos @ backend_name @ apos
                 @ '' with method '' @ apos @ method @ apos @ '': '' @ str_exn e) w1
          else w1
      | (Inr _, w1) \<Rightarrow> w1)"

text \<open>
  One round of the loop over the backends (lines 55-82). A handle that cannot be had is
  reported and the round ends (\<^verbatim>\<open>continue\<close>). The second \<^verbatim>\<open>os.makedirs\<close> stands
  outside every \<^verbatim>\<open>try\<close>: its exception leaves the round, the loop and the function.
\<close>

definition save_backend ::
  "'x sdk \<Rightarrow> bool \<Rightarrow> pyobj \<Rightarrow> string \<Rightarrow> string \<Rightarrow> 'x world \<Rightarrow> (exn + unit) \<times> 'x world" where
  "save_backend sdk verbose service root backend_name w =
     (case extern (Call_backend service backend_name)
             (service_backend sdk service backend_name) w of
        (Inl e, w1) \<Rightarrow>
          (Inr (),
           if verbose
           then print (''Failed to load backend '' @ apos @ backend_name @ apos @ '': ''
                  @ str_exn e) w1
           else w1)
      | (Inr backend, w1) \<Rightarrow>
          let bdir = os_path_join root [backend_name] in
          (case extern (Call_makedirs bdir) (os_makedirs sdk bdir) w1 of
             (Inl e, w2) \<Rightarrow> (Inl e, w2)
           | (Inr _, w2) \<Rightarrow>
               (Inr (),
                fold (save_method sdk verbose backend_name backend bdir)
                  simulation_methods w2)))"

text \<open>The loop over the backends (line 54).\<close>

fun save_backends ::
  "'x sdk \<Rightarrow> bool \<Rightarrow> pyobj \<Rightarrow> string \<Rightarrow> string list \<Rightarrow> 'x world
     \<Rightarrow> (exn + unit) \<times> 'x world" where
  "save_backends sdk verbose service root [] w = (Inr (), w)"
| "save_backends sdk verbose service root (backend_name # rest) w =
     (case save_backend sdk verbose service root backend_name w of
        (Inl e, w1) \<Rightarrow> (Inl e, w1)
      | (Inr _, w1) \<Rightarrow> save_backends sdk verbose service root rest w1)"

text \<open>\<^verbatim>\<open>save_ibm_simulators\<close> (lines 20-82).\<close>

definition save_ibm_simulators ::
  "'x sdk \<Rightarrow> string \<Rightarrow> string \<Rightarrow> string \<Rightarrow> bool \<Rightarrow> 'x world \<Rightarrow> (exn + unit) \<times> 'x world" where
  "save_ibm_simulators sdk channel token base_path verbose w =
     (let root = os_path_join base_path [''ibm_simulators''] in
      case extern (Call_makedirs root) (os_makedirs sdk root) w of
        (Inl e, w1) \<Rightarrow> (Inl e, w1)
      | (Inr _, w1) \<Rightarrow>
          (case extern (Call_QiskitRuntimeService channel token)
                  (QiskitRuntimeService sdk channel token) w1 of
             (Inl e, w2) \<Rightarrow>
               (Inl (RuntimeError (''Failed to initialize QiskitRuntimeService: ''
                       @ str_exn e)), w2)
           | (Inr service, w2) \<Rightarrow>
               save_backends sdk verbose service root target_backends w2))"

section \<open>What a run of the Builder attempts, configures and prints\<close>

text \<open>
  The claims about the Builder speak of what a whole run does. The definitions of this
  section word that, for the answers the outside gave: \<open>r\<close> is the answer of the
  service to the request for one backend, \<open>a\<close> the answer of \<^verbatim>\<open>from_backend\<close> for one
  method.

  \<open>spec_configured\<close>: for a method for which a simulator was obtained, that simulator is
  configured once, with the method name stripped of prefix and suffix and with the device
  the suffix gives; for a method whose simulator could not be had, nothing is configured.
\<close>

definition spec_configured :: "string \<Rightarrow> exn + pyobj \<Rightarrow> (pyobj \<times> string \<times> string) list" where
  "spec_configured m a =
     (case a of
        Inl e \<Rightarrow> []
      | Inr sim \<Rightarrow>
          [(sim, spec_strip_suffix ''_gpu'' (spec_strip_prefix ''aer_simulator_'' m),
            if suffix ''_gpu'' m then ''GPU'' else ''CPU'')])"

text \<open>
  \<open>spec_round_attempts\<close>: a backend whose handle was obtained has a simulator asked of
  that handle once for every method; a backend that was refused has none.
\<close>

definition spec_round_attempts :: "exn + pyobj \<Rightarrow> pyobj list" where
  "spec_round_attempts r =
     (case r of Inl e \<Rightarrow> [] | Inr h \<Rightarrow> map (\<lambda>m. h) simulation_methods)"

text \<open>
  \<open>spec_step_line\<close>: the line printed for one method is the line of a saved file or a
  line of failure naming the backend and the method. \<open>spec_round_lines\<close>: a refused
  backend has the one line of its refusal, an obtained one has a line for each method, in
  the order of the methods.
\<close>

definition spec_step_line :: "string \<Rightarrow> string \<Rightarrow> string \<Rightarrow> string \<Rightarrow> bool" where
  "spec_step_line filepath b m l \<longleftrightarrow>
     l = ''Saved simulator '' @ apos @ filepath @ apos
     \<or> prefix (''Failed to save simulator for '' @ apos @ b @ apos
                @ '' with method '' @ apos @ m @ apos @ '': '') l"

definition spec_round_lines :: "string \<Rightarrow> string \<Rightarrow> exn + pyobj \<Rightarrow> string list \<Rightarrow> bool" where
  "spec_round_lines base_path b r ls =
     (case r of
        Inl e \<Rightarrow> ls = [''Failed to load backend '' @ apos @ b @ apos @ '': '' @ str_exn e]
      | Inr h \<Rightarrow>
          list_all2 (\<lambda>m l. spec_step_line (save_filepath base_path b m) b m l)
            simulation_methods ls)"

text \<open>
  A round is the answer for its backend, the answers of \<^verbatim>\<open>from_backend\<close> for its
  methods and its printed lines. These put the rounds of a run together.
\<close>

definition spec_run_attempts ::
  "((exn + pyobj) \<times> (exn + pyobj) list \<times> string list) list \<Rightarrow> pyobj list" where
  "spec_run_attempts rounds = concat (map (\<lambda>(r, as, ls). spec_round_attempts r) rounds)"

definition spec_run_lines ::
  "((exn + pyobj) \<times> (exn + pyobj) list \<times> string list) list \<Rightarrow> string list" where
  "spec_run_lines rounds = concat (map (\<lambda>(r, as, ls). ls) rounds)"

definition spec_run_configured ::
  "((exn + pyobj) \<times> (exn + pyobj) list \<times> string list) list
     \<Rightarrow> (pyobj \<times> string \<times> string) list" where
  "spec_run_configured rounds =
     concat (map (\<lambda>(r, as, ls). concat (map2 spec_configured simulation_methods as)) rounds)"

text \<open>
  \<open>real_round\<close>: the round is one the outside can give. Its first answer is an answer of
  the service for this backend, in some state of the outside; when that is a handle,
  there is an answer of \<^verbatim>\<open>from_backend\<close> on that handle for every method, and when
  it is a refusal there is none; and the lines are those of such a round.
\<close>

abbreviation real_round ::
  "'x sdk \<Rightarrow> pyobj \<Rightarrow> string \<Rightarrow> string
     \<Rightarrow> (exn + pyobj) \<times> (exn + pyobj) list \<times> string list \<Rightarrow> bool" where
  "real_round sdk service base_path b \<equiv> \<lambda>(r, as, ls).
     (\<exists>x. r = fst (service_backend sdk service b x))
     \<and> (case r of
          Inl e \<Rightarrow> as = []
        | Inr h \<Rightarrow> length as = length simulation_methods
                   \<and> (\<forall>a\<in>set as. \<exists>x. a = fst (from_backend sdk h x)))
     \<and> spec_round_lines base_path b r ls"

section \<open>Concrete scenarios\<close>

text \<open>
  A host whose base path is \<^verbatim>\<open>/data\<close>, and a store with three files below it: a
  serialized simulator, bytes that do not deserialize, and a serialized object without a
  \<^verbatim>\<open>run\<close> attribute.
\<close>

definition demo_simulator :: pyobj where
  "demo_simulator = PyObj [''run'', ''set_options'', ''name''] 30"

definition demo_host :: host where
  "demo_host =
     \<lparr>getenv_base_path = Some ''/data'',
      dill_load = (\<lambda>bytes.
        if bytes = ''simulator'' then Inr demo_simulator
        else if bytes = ''number'' then Inr (PyObj [''real'', ''imag''] 7)
        else Inl (Error ''invalid load key'')),
      str_of_set = (\<lambda>S.
        if ''ibm_brisbane'' \<in> S then ''{'ibm_sherbrooke', 'ibm_brisbane'}''
        else ''{'aer_simulator_superop', 'aer_simulator_unitary_gpu', ''
          @ apos @ ''aer_simulator_statevector', 'aer_simulator_stabilizer', ''
          @ apos @ ''aer_simulator_density_matrix_gpu', 'aer_simulator_unitary', ''
          @ apos @ ''aer_simulator_matrix_product_state', 'aer_simulator_statevector_gpu', ''
          @ apos @ ''aer_simulator_extended_stabilizer', 'aer_simulator_density_matrix'}'')\<rparr>"

definition demo_store :: filesystem where
  "demo_store =
     [''/data/ibm_simulators/ibm_brisbane/aer_simulator_statevector.dill'' \<mapsto> ''simulator'',
      ''/data/ibm_simulators/ibm_brisbane/aer_simulator_unitary.dill'' \<mapsto> ''truncated'',
      ''/data/ibm_simulators/ibm_brisbane/aer_simulator_superop.dill'' \<mapsto> ''number'']"

text \<open>
  An SDK and operating system in which every call succeeds, and variants of it in which
  one kind of call fails. The state outside plays no part in them.
\<close>

definition good_sdk :: "unit sdk" where
  "good_sdk =
     \<lparr>os_makedirs = (\<lambda>p x. (Inr (), x)),
      QiskitRuntimeService = (\<lambda>channel token x. (Inr (PyObj [''backend''] 10), x)),
      service_backend = (\<lambda>service name x. (Inr (PyObj [''name''] 20), x)),
      from_backend = (\<lambda>backend x. (Inr demo_simulator, x)),
      set_options = (\<lambda>sim method dev x. (Inr sim, x)),
      open_wb = (\<lambda>p x. (Inr (), x)),
      dill_dump = (\<lambda>sim x. ((''simulator'', None), x)),
      transpile = (\<lambda>circuit backend level x. (Inr (PyObj [''draw''] (ident circuit + 100)), x)),
      Sampler = (\<lambda>mode x. (Inr (PyObj [''run''] 40), x)),
      sampler_run = (\<lambda>sampler circuits x. (Inr (PyObj [''result''] 50), x))\<rparr>"

definition sherbrooke_down_sdk :: "unit sdk" where
  "sherbrooke_down_sdk =
     good_sdk\<lparr>service_backend := (\<lambda>service name x.
       if name = ''ibm_sherbrooke'' then (Inl (Error ''backend not found''), x)
       else (Inr (PyObj [''name''] 20), x))\<rparr>"

definition blocked_directory_sdk :: "unit sdk" where
  "blocked_directory_sdk =
     good_sdk\<lparr>os_makedirs := (\<lambda>p x.
       if p = ''/data/ibm_simulators/ibm_brisbane''
       then (Inl (Error ''[Errno 13] Permission denied''), x)
       else (Inr (), x))\<rparr>"

definition no_calibration_sdk :: "unit sdk" where
  "no_calibration_sdk =
     good_sdk\<lparr>from_backend := (\<lambda>backend x. (Inl (Error ''no calibration data''), x))\<rparr>"

definition read_only_sdk :: "unit sdk" where
  "read_only_sdk =
     good_sdk\<lparr>open_wb := (\<lambda>p x. (Inl (Error ''[Errno 30] Read-only file system''), x))\<rparr>"

text \<open>
  The serializer writes the two bytes of the protocol header and then raises.
\<close>

definition failing_dump_sdk :: "unit sdk" where
  "failing_dump_sdk =
     good_sdk\<lparr>dill_dump := (\<lambda>sim x.
       (([CHR 0x80, CHR 0x04], Some (TypeError ''cannot pickle object'')), x))\<rparr>"

definition empty_world :: "unit world" where
  "empty_world = \<lparr>files = Map.empty, stdout = [], calls = [], outside = ()\<rparr>"

text \<open>An instance as construction leaves it.\<close>

definition demo_runner :: runner where
  "demo_runner = \<lparr>attr_ibm_backend_name = Some ''ibm_brisbane'',
     attr_simulation_method = Some ''aer_simulator_statevector'',
     attr_simulator = Some demo_simulator\<rparr>"


section \<open>Facts about paths and vocabularies\<close>

lemma save_filepath_eq_load_filepath:
  "save_filepath base_path backend_name method = load_filepath base_path backend_name method"
  by (simp add: save_filepath_def load_filepath_def folder_path_def os_path_join_def)

lemma suffix_slash_iff: "suffix ''/'' s \<longleftrightarrow> s \<noteq> [] \<and> last s = CHR ''/''"
proof (cases s rule: rev_cases)
  case Nil
  then show ?thesis by simp
next
  case (snoc ys y)
  then show ?thesis by (auto simp: suffix_def)
qed

lemma join_component_plain:
  assumes "path \<noteq> []" and "\<not> suffix ''/'' path" and "\<not> prefix ''/'' b"
  shows "join_component path b = path @ ''/'' @ b"
  using assms by (simp add: join_component_def)

lemma load_filepath_layout:
  assumes "base_path \<noteq> []" and "\<not> suffix ''/'' base_path"
    and "backend_name \<noteq> []" and "\<not> prefix ''/'' backend_name"
    and "\<not> suffix ''/'' backend_name" and "\<not> prefix ''/'' method"
  shows "load_filepath base_path backend_name method = spec_layout_path base_path backend_name method"
proof -
  let ?r = "base_path @ ''/ibm_simulators''"
  let ?d = "?r @ ''/'' @ backend_name"
  have 1: "join_component base_path ''ibm_simulators'' = ?r"
    using assms(1,2) by (simp add: join_component_def)
  have "?r \<noteq> []" and "\<not> suffix ''/'' ?r"
    by (simp_all add: suffix_slash_iff)
  then have 2: "join_component ?r backend_name = ?d"
    using assms(4) by (rule join_component_plain)
  have "\<not> prefix ''/'' (filename method)"
    using assms(6) by (cases "method") (simp_all add: filename_def)
  moreover have "?d \<noteq> []" and "\<not> suffix ''/'' ?d"
    using assms(3,5) by (simp_all add: suffix_slash_iff)
  ultimately have 3: "join_component ?d (filename method) = ?d @ ''/'' @ filename method"
    by (simp add: join_component_plain)
  have "load_filepath base_path backend_name method =
      join_component (join_component (join_component base_path ''ibm_simulators'') backend_name)
        (filename method)"
    by (simp add: load_filepath_def folder_path_def os_path_join_def)
  also have "\<dots> = ?d @ ''/'' @ filename method"
    by (simp only: 1 2 3)
  also have "\<dots> = spec_layout_path base_path backend_name method"
    by (simp add: spec_layout_path_def filename_def)
  finally show ?thesis .
qed

lemma set_simulation_methods: "set simulation_methods = SUPPORTED_SIMULATION_METHODS"
  by (simp add: simulation_methods_def SUPPORTED_SIMULATION_METHODS_def)

lemma set_target_backends: "set target_backends = AVAILABLE_BACKENDS"
  by (simp add: target_backends_def AVAILABLE_BACKENDS_def)

lemma base_method_strips:
  "map base_method simulation_methods
     = map (\<lambda>m. spec_strip_suffix ''_gpu'' (spec_strip_prefix ''aer_simulator_'' m)) simulation_methods"
  by (simp add: simulation_methods_def base_method_def spec_strip_suffix_def spec_strip_prefix_def
      suffix_to_prefix)

lemma demo_paths:
  "load_filepath ''/data'' ''ibm_brisbane'' ''aer_simulator_statevector'' =
     ''/data/ibm_simulators/ibm_brisbane/aer_simulator_statevector.dill''"
  "load_filepath ''/data'' ''ibm_brisbane'' ''aer_simulator_unitary'' =
     ''/data/ibm_simulators/ibm_brisbane/aer_simulator_unitary.dill''"
  "load_filepath ''/data'' ''ibm_brisbane'' ''aer_simulator_superop'' =
     ''/data/ibm_simulators/ibm_brisbane/aer_simulator_superop.dill''"
  "load_filepath ''/data'' ''ibm_sherbrooke'' ''aer_simulator_statevector'' =
     ''/data/ibm_simulators/ibm_sherbrooke/aer_simulator_statevector.dill''"
  by (simp_all add: load_filepath_def folder_path_def os_path_join_def join_component_def
      filename_def suffix_to_prefix)

section \<open>Facts about the construction of the Runner\<close>

lemma init_valid:
  assumes "backend \<in> AVAILABLE_BACKENDS" and "method \<in> SUPPORTED_SIMULATION_METHODS"
    and "getenv_base_path h = Some base_path"
  shows "init h fs backend method =
    (case load_simulator h fs (load_filepath base_path backend method) of
       Inl e \<Rightarrow> Inl e
     | Inr sim \<Rightarrow> Inr \<lparr>attr_ibm_backend_name = Some backend,
          attr_simulation_method = Some method, attr_simulator = Some sim\<rparr>)"
  using assms
  by (simp add: init_def set_ibm_backend_def set_simulator_def new_runner_def
      read_ibm_backend_name_def split: sum.splits)

lemma load_simulator_cases:
  "load_simulator h fs p =
     (case fs p of
        None \<Rightarrow> Inl (IOError (''Failed to load AerSimulator from '' @ p @ '': ''
          @ ''[Errno 2] No such file or directory: '' @ apos @ p @ apos))
      | Some bytes \<Rightarrow>
          (case dill_load h bytes of
             Inl e \<Rightarrow> Inl (IOError (''Failed to load AerSimulator from '' @ p @ '': ''
               @ str_exn e))
           | Inr obj \<Rightarrow>
               if hasattr obj ''run'' then Inr obj
               else Inl (IOError (''Failed to load AerSimulator from '' @ p @ '': ''
                 @ ''Loaded object is not a valid AerSimulator.''))))"
  by (simp add: load_simulator_def load_simulator_try_def open_rb_def
      split: option.splits sum.splits)

section \<open>Facts about the Builder\<close>

text \<open>
  What a call to the outside leaves as it was, and what one step of the Builder does to
  the files, the printed lines and the record of calls.
\<close>

lemma extern_eqD:
  "extern c f w = (r, w') \<Longrightarrow>
     f (outside w) = (r, outside w') \<and> fst (f (outside w)) = r
       \<and> files w' = files w \<and> stdout w' = stdout w \<and> calls w' = calls w @ [c]"
  by (auto simp: extern_def split: prod.splits)

lemma print_simps:
  "files (print l w) = files w" "stdout (print l w) = stdout w @ [l]"
  "calls (print l w) = calls w" "outside (print l w) = outside w"
  by (simp_all add: print_def)

lemma construct_simulator_eqD:
  "construct_simulator sdk backend m w = (r, w') \<Longrightarrow>
     files w' = files w \<and> stdout w' = stdout w
     \<and> backend_requests (calls w') = backend_requests (calls w)
     \<and> from_backend_calls (calls w') = from_backend_calls (calls w) @ [backend]"
  by (auto simp: construct_simulator_def backend_requests_def from_backend_calls_def
      split: prod.splits sum.splits dest!: extern_eqD)


lemma serialize_simulator_eqD:
  "serialize_simulator sdk sim p w = (r, w') \<Longrightarrow>
     stdout w' = stdout w
     \<and> backend_requests (calls w') = backend_requests (calls w)
     \<and> from_backend_calls (calls w') = from_backend_calls (calls w)
     \<and> (\<forall>q. q \<noteq> p \<longrightarrow> files w' q = files w q)"
  by (auto simp: serialize_simulator_def Let_def backend_requests_def from_backend_calls_def
      split: prod.splits sum.splits option.splits dest!: extern_eqD)

lemma serialize_simulator_files:
  "fst (open_wb sdk p (outside w)) = Inl e \<Longrightarrow>
     files (snd (serialize_simulator sdk sim p w)) = files w"
  "open_wb sdk p (outside w) = (Inr u, x) \<Longrightarrow> dill_dump sdk sim x = ((written, raised), y) \<Longrightarrow>
     files (snd (serialize_simulator sdk sim p w)) = (files w)(p \<mapsto> written)"
  "open_wb sdk p (outside w) = (Inr u, x) \<Longrightarrow> dill_dump sdk sim x = ((written, raised), y) \<Longrightarrow>
     fst (serialize_simulator sdk sim p w) = (case raised of Some e \<Rightarrow> Inl e | None \<Rightarrow> Inr ())"
  by (auto simp: serialize_simulator_def Let_def extern_def
      split: prod.splits sum.splits option.splits)

lemma save_method_try_eqD:
  "save_method_try sdk verbose backend bdir m w = (r, w') \<Longrightarrow>
     (\<not> verbose \<longrightarrow> stdout w' = stdout w)
     \<and> backend_requests (calls w') = backend_requests (calls w)
     \<and> from_backend_calls (calls w') = from_backend_calls (calls w) @ [backend]
     \<and> (\<forall>q. q \<noteq> os_path_join bdir [filename m] \<longrightarrow> files w' q = files w q)"
  by (auto simp: save_method_try_def Let_def print_simps
      split: prod.splits sum.splits if_splits
      dest!: construct_simulator_eqD serialize_simulator_eqD)

lemma save_method_try_failure_stdout:
  "save_method_try sdk verbose backend bdir m w = (Inl e, w') \<Longrightarrow> stdout w' = stdout w"
  by (auto simp: save_method_try_def Let_def
      split: prod.splits sum.splits if_splits
      dest!: construct_simulator_eqD serialize_simulator_eqD)

lemma save_method_props:
  "\<not> verbose \<Longrightarrow> stdout (save_method sdk verbose bn backend bdir m w) = stdout w"
  "backend_requests (calls (save_method sdk verbose bn backend bdir m w))
     = backend_requests (calls w)"
  "from_backend_calls (calls (save_method sdk verbose bn backend bdir m w))
     = from_backend_calls (calls w) @ [backend]"
  "q \<noteq> os_path_join bdir [filename m] \<Longrightarrow>
     files (save_method sdk verbose bn backend bdir m w) q = files w q"
  by (auto simp: save_method_def print_simps split: prod.splits sum.splits
      dest!: save_method_try_eqD)

lemma save_method_files:
  "files (save_method sdk verbose bn backend bdir m w)
     = files (snd (save_method_try sdk verbose backend bdir m w))"
  by (simp add: save_method_def print_simps split: prod.splits sum.splits)

lemma save_method_try_construction_failed:
  assumes "fst (construct_simulator sdk backend m w) = Inl e"
  shows "files (snd (save_method_try sdk verbose backend bdir m w)) = files w"
proof -
  obtain w1 where 1: "construct_simulator sdk backend m w = (Inl e, w1)"
    using assms by (cases "construct_simulator sdk backend m w") simp
  from construct_simulator_eqD [OF 1] show ?thesis
    by (simp add: save_method_try_def 1)
qed

lemma save_method_try_constructed:
  assumes "construct_simulator sdk backend m w = (Inr sim, w1)"
  shows "files (snd (save_method_try sdk verbose backend bdir m w))
           = files (snd (serialize_simulator sdk sim (os_path_join bdir [filename m]) w1))"
    and "fst (save_method_try sdk verbose backend bdir m w)
           = fst (serialize_simulator sdk sim (os_path_join bdir [filename m]) w1)"
    and "files w1 = files w"
  using construct_simulator_eqD [OF assms]
  by (auto simp: save_method_try_def assms Let_def print_simps split: prod.splits sum.splits)

lemma save_method_failure_logged:
  assumes "fst (save_method_try sdk verbose backend bdir m w) = Inl e"
  shows "stdout (save_method sdk verbose bn backend bdir m w)
    = stdout w @ (if verbose
        then [''Failed to save simulator for '' @ apos @ bn @ apos
                 @ '' with method '' @ apos @ m @ apos @ '': '' @ str_exn e]
        else [])"
proof -
  obtain w' where 1: "save_method_try sdk verbose backend bdir m w = (Inl e, w')"
    using assms by (cases "save_method_try sdk verbose backend bdir m w") simp
  from save_method_try_failure_stdout [OF 1] show ?thesis
    by (simp add: save_method_def 1 print_simps)
qed

text \<open>
  The loops: over the methods of one backend, and over the backends.
\<close>

lemma fold_save_method_stdout:
  "\<not> verbose \<Longrightarrow> stdout (fold (save_method sdk verbose bn backend bdir) ms w) = stdout w"
  by (induction ms arbitrary: w) (simp_all add: save_method_props(1))

lemma fold_save_method_backend_requests:
  "backend_requests (calls (fold (save_method sdk verbose bn backend bdir) ms w))
     = backend_requests (calls w)"
  by (induction ms arbitrary: w) (simp_all add: save_method_props(2))

lemma fold_save_method_from_backend_calls:
  "from_backend_calls (calls (fold (save_method sdk verbose bn backend bdir) ms w))
     = from_backend_calls (calls w) @ replicate (length ms) backend"
  by (induction ms arbitrary: w) (simp_all add: save_method_props(3) replicate_app_Cons_same)

lemma fold_save_method_frame:
  "\<forall>m\<in>set ms. q \<noteq> os_path_join bdir [filename m] \<Longrightarrow>
     files (fold (save_method sdk verbose bn backend bdir) ms w) q = files w q"
  by (induction ms arbitrary: w) (simp_all add: save_method_props(4))

lemma save_backend_eqD:
  "save_backend sdk verbose service root b w = (r, w') \<Longrightarrow>
     (\<not> verbose \<longrightarrow> stdout w' = stdout w)
     \<and> ((\<exists>u. r = Inr u) \<longrightarrow> backend_requests (calls w') = backend_requests (calls w) @ [b])
     \<and> (\<forall>q. (\<forall>m\<in>set simulation_methods.
               q \<noteq> os_path_join (os_path_join root [b]) [filename m])
           \<longrightarrow> files w' q = files w q)"
  by (auto simp: save_backend_def Let_def print_simps backend_requests_def
      fold_save_method_stdout fold_save_method_frame
      fold_save_method_backend_requests [unfolded backend_requests_def]
      split: prod.splits sum.splits if_splits dest!: extern_eqD)

lemma save_backend_returns:
  assumes "\<forall>p x. fst (os_makedirs sdk p x) = Inr ()"
  shows "fst (save_backend sdk verbose service root b w) = Inr ()"
proof -
  have "os_makedirs sdk p x \<noteq> (Inl e, y)" for p x e y
    using assms by (metis fst_conv sum.distinct(1))
  then show ?thesis
    by (auto simp: save_backend_def Let_def extern_def split: prod.splits sum.splits)
qed

lemma save_backend_failure_logged:
  assumes "fst (service_backend sdk service b (outside w)) = Inl e"
  shows "fst (save_backend sdk verbose service root b w) = Inr ()"
    and "stdout (snd (save_backend sdk verbose service root b w))
      = stdout w @ (if verbose
          then [''Failed to load backend '' @ apos @ b @ apos @ '': '' @ str_exn e]
          else [])"
    and "files (snd (save_backend sdk verbose service root b w)) = files w"
proof -
  obtain x where 1: "service_backend sdk service b (outside w) = (Inl e, x)"
    using assms by (cases "service_backend sdk service b (outside w)") simp
  show "fst (save_backend sdk verbose service root b w) = Inr ()"
    and "stdout (snd (save_backend sdk verbose service root b w))
      = stdout w @ (if verbose
          then [''Failed to load backend '' @ apos @ b @ apos @ '': '' @ str_exn e]
          else [])"
    and "files (snd (save_backend sdk verbose service root b w)) = files w"
    by (simp_all add: save_backend_def extern_def 1 print_simps)
qed

lemma save_backends_eqD:
  "save_backends sdk verbose service root bs w = (r, w') \<Longrightarrow>
     (\<not> verbose \<longrightarrow> stdout w' = stdout w)
     \<and> ((\<forall>p x. fst (os_makedirs sdk p x) = Inr ()) \<longrightarrow>
          r = Inr () \<and> backend_requests (calls w') = backend_requests (calls w) @ bs)
     \<and> (\<forall>q. (\<forall>b\<in>set bs. \<forall>m\<in>set simulation_methods.
               q \<noteq> os_path_join (os_path_join root [b]) [filename m])
           \<longrightarrow> files w' q = files w q)"
proof (induction bs arbitrary: w)
  case Nil
  then show ?case by simp
next
  case (Cons b bs)
  obtain r1 w1 where 1: "save_backend sdk verbose service root b w = (r1, w1)"
    by (cases "save_backend sdk verbose service root b w")
  note d = save_backend_eqD [OF 1]
  show ?case
  proof (cases r1)
    case (Inl e)
    with Cons.prems 1 d save_backend_returns [of sdk verbose service root b w]
    show ?thesis by auto
  next
    case (Inr u)
    with Cons.prems 1 have "save_backends sdk verbose service root bs w1 = (r, w')"
      by simp
    from Cons.IH [OF this] d Inr show ?thesis by auto
  qed
qed

lemma save_ibm_simulators_eqD:
  "save_ibm_simulators sdk channel token base_path verbose w = (r, w') \<Longrightarrow>
     (\<not> verbose \<longrightarrow> stdout w' = stdout w)
     \<and> (\<forall>q. (\<forall>b\<in>set target_backends. \<forall>m\<in>set simulation_methods.
               q \<noteq> save_filepath base_path b m)
           \<longrightarrow> files w' q = files w q)"
  by (auto simp: save_ibm_simulators_def Let_def save_filepath_def
      split: prod.splits sum.splits dest!: extern_eqD save_backends_eqD)

lemma save_ibm_simulators_returns:
  assumes "\<forall>p x. fst (os_makedirs sdk p x) = Inr ()"
    and "\<forall>x. \<exists>service. fst (QiskitRuntimeService sdk channel token x) = Inr service"
  shows "fst (save_ibm_simulators sdk channel token base_path verbose w) = Inr ()"
    and "backend_requests (calls (snd (save_ibm_simulators sdk channel token base_path verbose w)))
           = backend_requests (calls w) @ target_backends"
proof -
  let ?root = "os_path_join base_path [''ibm_simulators'']"
  from assms(1) have "fst (os_makedirs sdk ?root (outside w)) = Inr ()"
    by blast
  then obtain w1 where 1: "extern (Call_makedirs ?root) (os_makedirs sdk ?root) w = (Inr (), w1)"
    by (cases "os_makedirs sdk ?root (outside w)") (simp add: extern_def)
  from assms(2) obtain service
    where "fst (QiskitRuntimeService sdk channel token (outside w1)) = Inr service"
    by blast
  then obtain w2 where 2: "extern (Call_QiskitRuntimeService channel token)
      (QiskitRuntimeService sdk channel token) w1 = (Inr service, w2)"
    by (cases "QiskitRuntimeService sdk channel token (outside w1)") (simp add: extern_def)
  obtain r w3 where 3: "save_backends sdk verbose service ?root target_backends w2 = (r, w3)"
    by (cases "save_backends sdk verbose service ?root target_backends w2")
  have c: "backend_requests (calls w2) = backend_requests (calls w)"
    using extern_eqD [OF 1] extern_eqD [OF 2] by (simp add: backend_requests_def)
  have s: "save_ibm_simulators sdk channel token base_path verbose w = (r, w3)"
    by (simp add: save_ibm_simulators_def Let_def 1 2 3)
  from save_backends_eqD [OF 3] assms(1) c
  show "fst (save_ibm_simulators sdk channel token base_path verbose w) = Inr ()"
    and "backend_requests (calls (snd (save_ibm_simulators sdk channel token base_path verbose w)))
           = backend_requests (calls w) @ target_backends"
    by (simp_all add: s)
qed

lemma written_paths_are_runner_paths:
  assumes "files (snd (save_ibm_simulators sdk channel token base_path verbose w)) p \<noteq> files w p"
  shows "\<exists>b\<in>AVAILABLE_BACKENDS. \<exists>m\<in>SUPPORTED_SIMULATION_METHODS. p = load_filepath base_path b m"
proof (rule ccontr)
  assume "\<not> ?thesis"
  then have "\<forall>b\<in>set target_backends. \<forall>m\<in>set simulation_methods. p \<noteq> save_filepath base_path b m"
    by (simp add: set_target_backends set_simulation_methods save_filepath_eq_load_filepath)
  with save_ibm_simulators_eqD [OF surjective_pairing]
  have "files (snd (save_ibm_simulators sdk channel token base_path verbose w)) p = files w p"
    by blast
  with assms show False by contradiction
qed

text \<open>
  What a step, a round and a run configure and print, and what they ask of
  \<^verbatim>\<open>from_backend\<close>, in terms of the answers the outside gave.
\<close>

lemma construct_simulator_configured:
  "construct_simulator sdk backend m w = (r, w') \<Longrightarrow>
     set_options_calls (calls w')
       = set_options_calls (calls w)
         @ (case fst (from_backend sdk backend (outside w)) of
              Inl e \<Rightarrow> []
            | Inr sim \<Rightarrow> [(sim, base_method m, device m)])"
  by (auto simp: construct_simulator_def set_options_calls_def
      split: prod.splits sum.splits dest!: extern_eqD)

lemma serialize_simulator_configured:
  "serialize_simulator sdk sim p w = (r, w') \<Longrightarrow>
     set_options_calls (calls w') = set_options_calls (calls w)"
  by (auto simp: serialize_simulator_def Let_def set_options_calls_def
      split: prod.splits sum.splits option.splits dest!: extern_eqD)

lemma save_method_try_configured:
  "save_method_try sdk verbose backend bdir m w = (r, w') \<Longrightarrow>
     set_options_calls (calls w')
       = set_options_calls (calls w)
         @ (case fst (from_backend sdk backend (outside w)) of
              Inl e \<Rightarrow> []
            | Inr sim \<Rightarrow> [(sim, base_method m, device m)])"
  by (auto simp: save_method_try_def Let_def print_simps
      split: prod.splits sum.splits if_splits
      dest!: construct_simulator_configured serialize_simulator_configured)

lemma save_method_try_success_stdout:
  "save_method_try sdk verbose backend bdir m w = (Inr u, w') \<Longrightarrow>
     stdout w' = stdout w
       @ (if verbose
          then [''Saved simulator '' @ apos @ os_path_join bdir [filename m] @ apos]
          else [])"
  by (auto simp: save_method_try_def Let_def print_simps
      split: prod.splits sum.splits if_splits
      dest!: construct_simulator_eqD serialize_simulator_eqD)

lemma spec_configured_eq:
  assumes "m \<in> set simulation_methods"
  shows "spec_configured m a
    = (case a of Inl e \<Rightarrow> [] | Inr sim \<Rightarrow> [(sim, base_method m, device m)])"
proof -
  from assms base_method_strips
  have "base_method m = spec_strip_suffix ''_gpu'' (spec_strip_prefix ''aer_simulator_'' m)"
    by (simp only: map_eq_conv)
  then show ?thesis
    by (simp add: spec_configured_def device_def split: sum.splits)
qed

lemma save_method_report:
  assumes "m \<in> set simulation_methods"
  shows "\<exists>l. spec_step_line (os_path_join bdir [filename m]) bn m l
     \<and> stdout (save_method sdk verbose bn backend bdir m w)
         = stdout w @ (if verbose then [l] else [])
     \<and> set_options_calls (calls (save_method sdk verbose bn backend bdir m w))
         = set_options_calls (calls w)
           @ spec_configured m (fst (from_backend sdk backend (outside w)))"
proof -
  obtain r w1 where t: "save_method_try sdk verbose backend bdir m w = (r, w1)"
    by (cases "save_method_try sdk verbose backend bdir m w")
  note c = save_method_try_configured [OF t, folded spec_configured_eq [OF assms]]
  show ?thesis
  proof (cases r)
    case (Inl e)
    with t have s: "stdout w1 = stdout w"
      by (simp add: save_method_try_failure_stdout)
    let ?l = "''Failed to save simulator for '' @ apos @ bn @ apos
                 @ '' with method '' @ apos @ m @ apos @ '': '' @ str_exn e"
    have "spec_step_line (os_path_join bdir [filename m]) bn m ?l"
      by (simp add: spec_step_line_def)
    moreover have "stdout (save_method sdk verbose bn backend bdir m w)
         = stdout w @ (if verbose then [?l] else [])"
      by (simp add: save_method_def t Inl print_simps s)
    moreover have "calls (save_method sdk verbose bn backend bdir m w) = calls w1"
      by (simp add: save_method_def t Inl print_simps)
    ultimately show ?thesis
      using c by auto
  next
    case (Inr u)
    let ?l = "''Saved simulator '' @ apos @ os_path_join bdir [filename m] @ apos"
    from t Inr have s: "stdout w1 = stdout w @ (if verbose then [?l] else [])"
      by (simp add: save_method_try_success_stdout)
    have "spec_step_line (os_path_join bdir [filename m]) bn m ?l"
      by (simp add: spec_step_line_def)
    moreover have "save_method sdk verbose bn backend bdir m w = w1"
      by (simp add: save_method_def t Inr)
    ultimately show ?thesis
      using c s by auto
  qed
qed

lemma fold_save_method_report:
  assumes "set ms \<subseteq> set simulation_methods"
  shows "\<exists>as ls. length as = length ms
     \<and> (\<forall>a\<in>set as. \<exists>x. a = fst (from_backend sdk backend x))
     \<and> list_all2 (\<lambda>m l. spec_step_line (os_path_join bdir [filename m]) bn m l) ms ls
     \<and> stdout (fold (save_method sdk verbose bn backend bdir) ms w)
         = stdout w @ (if verbose then ls else [])
     \<and> set_options_calls (calls (fold (save_method sdk verbose bn backend bdir) ms w))
         = set_options_calls (calls w) @ concat (map2 spec_configured ms as)"
  using assms
proof (induction ms arbitrary: w)
  case Nil
  show ?case by simp
next
  case (Cons m ms)
  let ?w1 = "save_method sdk verbose bn backend bdir m w"
  from Cons.prems have m: "m \<in> set simulation_methods" and ms: "set ms \<subseteq> set simulation_methods"
    by simp_all
  from save_method_report [OF m, of bdir bn sdk verbose backend w]
  obtain l where l: "spec_step_line (os_path_join bdir [filename m]) bn m l"
    and s1: "stdout ?w1 = stdout w @ (if verbose then [l] else [])"
    and c1: "set_options_calls (calls ?w1) = set_options_calls (calls w)
           @ spec_configured m (fst (from_backend sdk backend (outside w)))"
    by blast
  from Cons.IH [OF ms, of ?w1]
  obtain as ls where n: "length as = length ms"
    and r: "\<forall>a\<in>set as. \<exists>x. a = fst (from_backend sdk backend x)"
    and ll: "list_all2 (\<lambda>m l. spec_step_line (os_path_join bdir [filename m]) bn m l) ms ls"
    and s2: "stdout (fold (save_method sdk verbose bn backend bdir) ms ?w1)
         = stdout ?w1 @ (if verbose then ls else [])"
    and c2: "set_options_calls (calls (fold (save_method sdk verbose bn backend bdir) ms ?w1))
         = set_options_calls (calls ?w1) @ concat (map2 spec_configured ms as)"
    by blast
  let ?as = "fst (from_backend sdk backend (outside w)) # as"
  let ?ls = "l # ls"
  have "length ?as = length (m # ms)"
    using n by simp
  moreover have "\<forall>a\<in>set ?as. \<exists>x. a = fst (from_backend sdk backend x)"
    using r by auto
  moreover have "list_all2 (\<lambda>m l. spec_step_line (os_path_join bdir [filename m]) bn m l)
      (m # ms) ?ls"
    using l ll by simp
  moreover have "stdout (fold (save_method sdk verbose bn backend bdir) (m # ms) w)
         = stdout w @ (if verbose then ?ls else [])"
    using s1 s2 by simp
  moreover have "set_options_calls (calls (fold (save_method sdk verbose bn backend bdir)
        (m # ms) w))
         = set_options_calls (calls w) @ concat (map2 spec_configured (m # ms) ?as)"
    using c1 c2 by simp
  ultimately show ?case
    by blast
qed

lemma save_backend_raised:
  "save_backend sdk verbose service root b w = (Inl e, w') \<Longrightarrow>
     stdout w' = stdout w
     \<and> from_backend_calls (calls w') = from_backend_calls (calls w)
     \<and> set_options_calls (calls w') = set_options_calls (calls w)"
  by (auto simp: save_backend_def Let_def from_backend_calls_def set_options_calls_def
      split: prod.splits sum.splits if_splits dest!: extern_eqD)

lemma save_backend_report:
  assumes "save_backend sdk verbose service (os_path_join base_path [''ibm_simulators'']) b w
    = (Inr u, w')"
  shows "\<exists>t. real_round sdk service base_path b t
     \<and> from_backend_calls (calls w') = from_backend_calls (calls w) @ spec_run_attempts [t]
     \<and> set_options_calls (calls w') = set_options_calls (calls w) @ spec_run_configured [t]
     \<and> stdout w' = stdout w @ (if verbose then spec_run_lines [t] else [])"
proof -
  let ?root = "os_path_join base_path [''ibm_simulators'']"
  let ?r = "fst (service_backend sdk service b (outside w))"
  let ?w1 = "w\<lparr>calls := calls w @ [Call_backend service b],
    outside := snd (service_backend sdk service b (outside w))\<rparr>"
  have ex: "extern (Call_backend service b) (service_backend sdk service b) w = (?r, ?w1)"
    by (simp add: extern_def split: prod.splits)
  have real: "\<exists>x. ?r = fst (service_backend sdk service b x)"
    by blast
  show ?thesis
  proof (cases ?r)
    case (Inl e)
    let ?l = "''Failed to load backend '' @ apos @ b @ apos @ '': '' @ str_exn e"
    from assms have w': "w' = (if verbose then print ?l ?w1 else ?w1)"
      by (simp add: save_backend_def ex Inl)
    have "real_round sdk service base_path b (?r, [], [?l])"
      using real by (auto simp: Inl spec_round_lines_def)
    moreover have "from_backend_calls (calls w') = from_backend_calls (calls w)"
      "set_options_calls (calls w') = set_options_calls (calls w)"
      "stdout w' = stdout w @ (if verbose then [?l] else [])"
      by (simp_all add: w' print_simps from_backend_calls_def set_options_calls_def)
    ultimately show ?thesis
      by (intro exI [of _ "(?r, [], [?l])"])
        (simp add: spec_run_attempts_def spec_run_configured_def spec_run_lines_def
          spec_round_attempts_def Inl)
  next
    case (Inr h)
    let ?bdir = "os_path_join ?root [b]"
    obtain m1 w2 where mk: "extern (Call_makedirs ?bdir) (os_makedirs sdk ?bdir) ?w1 = (m1, w2)"
      by (cases "extern (Call_makedirs ?bdir) (os_makedirs sdk ?bdir) ?w1")
    from assms have m1: "m1 = Inr ()"
      and w': "w' = fold (save_method sdk verbose b h ?bdir) simulation_methods w2"
      by (auto simp: save_backend_def ex Inr Let_def mk split: sum.splits)
    from extern_eqD [OF mk] have w2: "stdout w2 = stdout w"
      "from_backend_calls (calls w2) = from_backend_calls (calls w)"
      "set_options_calls (calls w2) = set_options_calls (calls w)"
      by (simp_all add: from_backend_calls_def set_options_calls_def)
    from fold_save_method_report [OF subset_refl, of sdk h ?bdir b verbose w2]
    obtain as ls where n: "length as = length simulation_methods"
      and r: "\<forall>a\<in>set as. \<exists>x. a = fst (from_backend sdk h x)"
      and ll: "list_all2 (\<lambda>m l. spec_step_line (os_path_join ?bdir [filename m]) b m l)
          simulation_methods ls"
      and s: "stdout w' = stdout w2 @ (if verbose then ls else [])"
      and c: "set_options_calls (calls w')
         = set_options_calls (calls w2) @ concat (map2 spec_configured simulation_methods as)"
      unfolding w' by blast
    have f: "from_backend_calls (calls w')
        = from_backend_calls (calls w2) @ map (\<lambda>m. h) simulation_methods"
      by (simp add: w' fold_save_method_from_backend_calls map_replicate_const)
    have "real_round sdk service base_path b (?r, as, ls)"
      using real n r ll by (auto simp: Inr spec_round_lines_def save_filepath_def)
    then show ?thesis
      using f s c w2
      by (intro exI [of _ "(?r, as, ls)"])
        (simp add: spec_run_attempts_def spec_run_configured_def spec_run_lines_def
          spec_round_attempts_def Inr)
  qed
qed

lemma save_backends_report:
  "save_backends sdk verbose service (os_path_join base_path [''ibm_simulators'']) bs w
     = (res, w') \<Longrightarrow>
   \<exists>rounds. length rounds \<le> length bs
     \<and> ((\<exists>u. res = Inr u) \<longrightarrow> length rounds = length bs)
     \<and> list_all2 (real_round sdk service base_path) (take (length rounds) bs) rounds
     \<and> from_backend_calls (calls w') = from_backend_calls (calls w) @ spec_run_attempts rounds
     \<and> set_options_calls (calls w') = set_options_calls (calls w) @ spec_run_configured rounds
     \<and> stdout w' = stdout w @ (if verbose then spec_run_lines rounds else [])"
proof (induction bs arbitrary: w)
  case Nil
  then show ?case
    by (simp add: spec_run_attempts_def spec_run_configured_def spec_run_lines_def)
next
  case (Cons b bs)
  let ?root = "os_path_join base_path [''ibm_simulators'']"
  obtain r1 w1 where 1: "save_backend sdk verbose service ?root b w = (r1, w1)"
    by (cases "save_backend sdk verbose service ?root b w")
  show ?case
  proof (cases r1)
    case (Inl e)
    with Cons.prems 1 have "res = Inl e" "w' = w1"
      by simp_all
    with save_backend_raised [OF 1 [unfolded Inl]] show ?thesis
      by (intro exI [of _ "[]"])
        (simp add: spec_run_attempts_def spec_run_configured_def spec_run_lines_def)
  next
    case (Inr u)
    with Cons.prems 1 have 2: "save_backends sdk verbose service ?root bs w1 = (res, w')"
      by simp
    from save_backend_report [OF 1 [unfolded Inr]]
    obtain t where t: "real_round sdk service base_path b t"
      and f1: "from_backend_calls (calls w1) = from_backend_calls (calls w) @ spec_run_attempts [t]"
      and c1: "set_options_calls (calls w1) = set_options_calls (calls w) @ spec_run_configured [t]"
      and s1: "stdout w1 = stdout w @ (if verbose then spec_run_lines [t] else [])"
      by blast
    from Cons.IH [OF 2]
    obtain rounds where n: "length rounds \<le> length bs"
      and e: "(\<exists>u. res = Inr u) \<longrightarrow> length rounds = length bs"
      and l: "list_all2 (real_round sdk service base_path) (take (length rounds) bs) rounds"
      and f2: "from_backend_calls (calls w') = from_backend_calls (calls w1) @ spec_run_attempts rounds"
      and c2: "set_options_calls (calls w') = set_options_calls (calls w1) @ spec_run_configured rounds"
      and s2: "stdout w' = stdout w1 @ (if verbose then spec_run_lines rounds else [])"
      by blast
    have "list_all2 (real_round sdk service base_path)
        (take (length (t # rounds)) (b # bs)) (t # rounds)"
      using t l by simp
    moreover have "from_backend_calls (calls w')
        = from_backend_calls (calls w) @ spec_run_attempts (t # rounds)"
      using f1 f2 by (simp add: spec_run_attempts_def)
    moreover have "set_options_calls (calls w')
        = set_options_calls (calls w) @ spec_run_configured (t # rounds)"
      using c1 c2 by (simp add: spec_run_configured_def)
    moreover have "stdout w' = stdout w @ (if verbose then spec_run_lines (t # rounds) else [])"
      using s1 s2 by (simp add: spec_run_lines_def)
    ultimately show ?thesis
      using n e by (intro exI [of _ "t # rounds"]) simp
  qed
qed

lemma save_ibm_simulators_report:
  assumes "save_ibm_simulators sdk channel token base_path verbose w = (res, w')"
  shows "\<exists>service rounds. length rounds \<le> length target_backends
     \<and> ((\<exists>u. res = Inr u) \<longrightarrow> length rounds = length target_backends)
     \<and> list_all2 (real_round sdk service base_path)
          (take (length rounds) target_backends) rounds
     \<and> from_backend_calls (calls w') = from_backend_calls (calls w) @ spec_run_attempts rounds
     \<and> set_options_calls (calls w') = set_options_calls (calls w) @ spec_run_configured rounds
     \<and> stdout w' = stdout w @ (if verbose then spec_run_lines rounds else [])"
proof -
  let ?root = "os_path_join base_path [''ibm_simulators'']"
  have none: ?thesis
    if "\<forall>u. res \<noteq> Inr u" and "stdout w' = stdout w"
      and "from_backend_calls (calls w') = from_backend_calls (calls w)"
      and "set_options_calls (calls w') = set_options_calls (calls w)"
    using that
    by (intro exI [of _ "[]"] exI [of _ "PyObj [] 0"])
      (simp add: spec_run_attempts_def spec_run_configured_def spec_run_lines_def)
  obtain m1 w1 where 1: "extern (Call_makedirs ?root) (os_makedirs sdk ?root) w = (m1, w1)"
    by (cases "extern (Call_makedirs ?root) (os_makedirs sdk ?root) w")
  from extern_eqD [OF 1] have k1: "stdout w1 = stdout w"
    "from_backend_calls (calls w1) = from_backend_calls (calls w)"
    "set_options_calls (calls w1) = set_options_calls (calls w)"
    by (simp_all add: from_backend_calls_def set_options_calls_def)
  show ?thesis
  proof (cases m1)
    case (Inl e)
    with assms 1 have "res = Inl e" "w' = w1"
      by (simp_all add: save_ibm_simulators_def Let_def)
    with k1 show ?thesis
      by (intro none) simp_all
  next
    case m1: (Inr u1)
    obtain s1 w2 where 2: "extern (Call_QiskitRuntimeService channel token)
        (QiskitRuntimeService sdk channel token) w1 = (s1, w2)"
      by (cases "extern (Call_QiskitRuntimeService channel token)
        (QiskitRuntimeService sdk channel token) w1")
    from extern_eqD [OF 2] k1 have k2: "stdout w2 = stdout w"
      "from_backend_calls (calls w2) = from_backend_calls (calls w)"
      "set_options_calls (calls w2) = set_options_calls (calls w)"
      by (simp_all add: from_backend_calls_def set_options_calls_def)
    show ?thesis
    proof (cases s1)
      case (Inl e)
      with assms 1 2 m1 have "\<forall>u. res \<noteq> Inr u" "w' = w2"
        by (auto simp: save_ibm_simulators_def Let_def)
      with k2 show ?thesis
        by (intro none) simp_all
    next
      case (Inr service)
      with assms 1 2 m1
      have "save_backends sdk verbose service ?root target_backends w2 = (res, w')"
        by (simp add: save_ibm_simulators_def Let_def)
      from save_backends_report [OF this] k2 show ?thesis
        by (simp only:) blast
    qed
  qed
qed

lemma save_backend_attempts:
  assumes "\<forall>p x. fst (os_makedirs sdk p x) = Inr ()"
    and "fst (service_backend sdk service b (outside w)) = Inr h"
  shows "from_backend_calls (calls (snd (save_backend sdk verbose service root b w)))
     = from_backend_calls (calls w) @ replicate (length simulation_methods) h"
proof -
  let ?bdir = "os_path_join root [b]"
  obtain w1 where 1: "extern (Call_backend service b) (service_backend sdk service b) w
      = (Inr h, w1)"
    using assms(2)
    by (cases "service_backend sdk service b (outside w)") (simp add: extern_def)
  from assms(1) have "fst (os_makedirs sdk ?bdir (outside w1)) = Inr ()"
    by blast
  then obtain w2 where 2: "extern (Call_makedirs ?bdir) (os_makedirs sdk ?bdir) w1 = (Inr (), w2)"
    by (cases "os_makedirs sdk ?bdir (outside w1)") (simp add: extern_def)
  from extern_eqD [OF 1] extern_eqD [OF 2]
  have "from_backend_calls (calls w2) = from_backend_calls (calls w)"
    by (simp add: from_backend_calls_def)
  then show ?thesis
    by (simp add: save_backend_def 1 2 fold_save_method_from_backend_calls)
qed

lemma ten_copies: "replicate 10 x = [x, x, x, x, x, x, x, x, x, x]"
  by (simp add: eval_nat_numeral)

text \<open>
  The definitions that evaluating a run of the Builder unfolds.
\<close>

lemmas builder_eval =
  save_ibm_simulators_def save_backend_def save_method_def save_method_try_def
  construct_simulator_def serialize_simulator_def extern_def print_def
  good_sdk_def empty_world_def target_backends_def simulation_methods_def
  os_path_join_def join_component_def filename_def suffix_to_prefix Let_def

section \<open>The claims\<close>

text \<open>
  Claim C1, as stated, fails. With an empty base path both modules resolve the relative
  path \<^verbatim>\<open>ibm_simulators/...\<close>, where the layout
  \<^verbatim>\<open>{base_path}/ibm_simulators/{backend_name}/{method_name}.dill\<close> gives the absolute
  \<^verbatim>\<open>/ibm_simulators/...\<close>; with the base path \<^verbatim>\<open>/data/\<close> the resolved path has one
  slash after \<^verbatim>\<open>/data\<close> and the layout has two. \<^verbatim>\<open>os.path.join\<close> adds no separator
  after an empty component or one that ends in a separator.
\<close>

theorem artifact_path_layout_counterexample:
  "load_filepath [] ''ibm_brisbane'' ''aer_simulator_statevector''
     = ''ibm_simulators/ibm_brisbane/aer_simulator_statevector.dill''
   \<and> spec_layout_path [] ''ibm_brisbane'' ''aer_simulator_statevector''
     = ''/ibm_simulators/ibm_brisbane/aer_simulator_statevector.dill''
   \<and> load_filepath [] ''ibm_brisbane'' ''aer_simulator_statevector''
     \<noteq> spec_layout_path [] ''ibm_brisbane'' ''aer_simulator_statevector''
   \<and> load_filepath ''/data/'' ''ibm_brisbane'' ''aer_simulator_statevector''
     = ''/data/ibm_simulators/ibm_brisbane/aer_simulator_statevector.dill''
   \<and> spec_layout_path ''/data/'' ''ibm_brisbane'' ''aer_simulator_statevector''
     = ''/data//ibm_simulators/ibm_brisbane/aer_simulator_statevector.dill''
   \<and> load_filepath ''/data/'' ''ibm_brisbane'' ''aer_simulator_statevector''
     \<noteq> spec_layout_path ''/data/'' ''ibm_brisbane'' ''aer_simulator_statevector''"
  by (simp add: load_filepath_def folder_path_def os_path_join_def join_component_def
      filename_def spec_layout_path_def suffix_to_prefix)

text \<open>
  Claim C1, amended: the Builder and the Runner resolve the same path from the same base
  path, backend name and method name, namely the \<^verbatim>\<open>os.path.join\<close> of the base path,
  \<^verbatim>\<open>ibm_simulators\<close>, the backend name and \<^verbatim>\<open>{method}.dill\<close>. It is
  \<^verbatim>\<open>{base_path}/ibm_simulators/{backend_name}/{method_name}.dill\<close> whenever the base
  path is not empty and does not end in a slash, the backend name is not empty and neither
  starts nor ends with a slash, and the method name does not start with a slash; every
  name of the two allow-lists is of that kind. A valid construction loads from that path,
  and the Builder's step for a backend and a method touches no file at another path.
\<close>

theorem artifact_path_resolution:
  "save_filepath base_path backend_name method = load_filepath base_path backend_name method
   \<and> (base_path \<noteq> [] \<and> \<not> suffix ''/'' base_path
        \<and> backend_name \<noteq> [] \<and> \<not> prefix ''/'' backend_name \<and> \<not> suffix ''/'' backend_name
        \<and> \<not> prefix ''/'' method
      \<longrightarrow> load_filepath base_path backend_name method
            = spec_layout_path base_path backend_name method)
   \<and> (base_path \<noteq> [] \<and> \<not> suffix ''/'' base_path
        \<and> backend_name \<in> AVAILABLE_BACKENDS \<and> method \<in> SUPPORTED_SIMULATION_METHODS
      \<longrightarrow> load_filepath base_path backend_name method
            = spec_layout_path base_path backend_name method)
   \<and> (backend_name \<in> AVAILABLE_BACKENDS \<and> method \<in> SUPPORTED_SIMULATION_METHODS
        \<and> getenv_base_path h = Some base_path
      \<longrightarrow> init h fs backend_name method =
            (case load_simulator h fs (load_filepath base_path backend_name method) of
               Inl e \<Rightarrow> Inl e
             | Inr sim \<Rightarrow> Inr \<lparr>attr_ibm_backend_name = Some backend_name,
                 attr_simulation_method = Some method, attr_simulator = Some sim\<rparr>))
   \<and> (q \<noteq> load_filepath base_path backend_name method
      \<longrightarrow> files (save_method sdk verbose backend_name backend
             (os_path_join (os_path_join base_path [''ibm_simulators'']) [backend_name])
             method w) q
            = files w q)"
proof -
  have m: "\<not> prefix ''/'' method" if "method \<in> SUPPORTED_SIMULATION_METHODS"
    using that by (auto simp: SUPPORTED_SIMULATION_METHODS_def)
  have b: "backend_name \<noteq> [] \<and> \<not> prefix ''/'' backend_name \<and> \<not> suffix ''/'' backend_name"
    if "backend_name \<in> AVAILABLE_BACKENDS"
    using that by (auto simp: AVAILABLE_BACKENDS_def suffix_slash_iff)
  have p: "os_path_join (os_path_join (os_path_join base_path [''ibm_simulators''])
        [backend_name]) [filename method] = load_filepath base_path backend_name method"
    by (simp add: load_filepath_def folder_path_def os_path_join_def)
  have 5: "q \<noteq> load_filepath base_path backend_name method
      \<longrightarrow> files (save_method sdk verbose backend_name backend
             (os_path_join (os_path_join base_path [''ibm_simulators'']) [backend_name])
             method w) q
            = files w q"
    using save_method_props(4) [of q
        "os_path_join (os_path_join base_path [''ibm_simulators'']) [backend_name]" "method"]
    by (simp only: p) blast
  show ?thesis
    using m b 5
    by (simp add: save_filepath_eq_load_filepath load_filepath_layout init_valid)
qed

theorem artifact_path_resolution_witness:
  "save_filepath ''/data'' ''ibm_brisbane'' ''aer_simulator_statevector''
     = ''/data/ibm_simulators/ibm_brisbane/aer_simulator_statevector.dill''
   \<and> load_filepath ''/data'' ''ibm_brisbane'' ''aer_simulator_statevector''
     = ''/data/ibm_simulators/ibm_brisbane/aer_simulator_statevector.dill''
   \<and> ''ibm_brisbane'' \<in> AVAILABLE_BACKENDS
   \<and> ''aer_simulator_statevector'' \<in> SUPPORTED_SIMULATION_METHODS
   \<and> getenv_base_path demo_host = Some ''/data''
   \<and> init demo_host demo_store ''ibm_brisbane'' ''aer_simulator_statevector''
       = (case load_simulator demo_host demo_store
                 ''/data/ibm_simulators/ibm_brisbane/aer_simulator_statevector.dill'' of
            Inl e \<Rightarrow> Inl e
          | Inr sim \<Rightarrow> Inr \<lparr>attr_ibm_backend_name = Some ''ibm_brisbane'',
              attr_simulation_method = Some ''aer_simulator_statevector'',
              attr_simulator = Some sim\<rparr>)
   \<and> files (save_method good_sdk True ''ibm_brisbane'' (PyObj [''name''] 20)
        ''/data/ibm_simulators/ibm_brisbane'' ''aer_simulator_statevector'' empty_world)
        ''/data/ibm_simulators/ibm_brisbane/aer_simulator_unitary.dill''
       = None"
  using artifact_path_resolution [of "''/data''" "''ibm_brisbane''" "''aer_simulator_statevector''"
      demo_host demo_store "''/data/ibm_simulators/ibm_brisbane/aer_simulator_unitary.dill''"
      good_sdk True "PyObj [''name''] 20" empty_world]
  by (simp add: spec_layout_path_def suffix_to_prefix AVAILABLE_BACKENDS_def
      SUPPORTED_SIMULATION_METHODS_def demo_host_def os_path_join_def join_component_def
      empty_world_def)

text \<open>
  Claim C2: for a backend name outside the allow-list, construction raises
  \<^verbatim>\<open>ValueError\<close>, whatever the method argument, and the message quotes the backend
  name.
\<close>

theorem unsupported_backend_rejected:
  "backend \<notin> AVAILABLE_BACKENDS \<Longrightarrow>
   init h fs backend method =
     Inl (ValueError (''Unsupported IBM backend: '' @ apos @ backend @ apos @ ''.\<newline>''
              @ ''Available backends: '' @ str_of_set h AVAILABLE_BACKENDS))"
  by (simp add: init_def set_ibm_backend_def)

theorem unsupported_backend_rejected_witness:
  "''ibm_kyoto'' \<notin> AVAILABLE_BACKENDS
   \<and> init demo_host demo_store ''ibm_kyoto'' ''aer_simulator_statevector'' =
     Inl (ValueError (''Unsupported IBM backend: '' @ apos @ ''ibm_kyoto'' @ apos @ ''.\<newline>''
              @ ''Available backends: {'ibm_sherbrooke', 'ibm_brisbane'}''))"
  using unsupported_backend_rejected [of "''ibm_kyoto''" demo_host demo_store "''aer_simulator_statevector''"]
  by (simp add: AVAILABLE_BACKENDS_def demo_host_def)

text \<open>
  Claim C3: for a method name outside the allow-list, construction raises
  \<^verbatim>\<open>ValueError\<close> whether the backend name is in its allow-list or not; when it is,
  the message quotes the method name.
\<close>

theorem unsupported_method_rejected:
  "method \<notin> SUPPORTED_SIMULATION_METHODS \<Longrightarrow>
     (\<exists>msg. init h fs backend method = Inl (ValueError msg))
   \<and> (backend \<in> AVAILABLE_BACKENDS \<longrightarrow>
        init h fs backend method =
          Inl (ValueError (''Unsupported simulation method: '' @ apos @ method @ apos
            @ ''.\<newline>'' @ ''Supported methods: ''
            @ str_of_set h SUPPORTED_SIMULATION_METHODS)))"
  by (simp add: init_def set_ibm_backend_def set_simulator_def)

theorem unsupported_method_rejected_witness:
  "''qasm_simulator'' \<notin> SUPPORTED_SIMULATION_METHODS
   \<and> ''ibm_brisbane'' \<in> AVAILABLE_BACKENDS
   \<and> init demo_host demo_store ''ibm_brisbane'' ''qasm_simulator'' =
       Inl (ValueError (''Unsupported simulation method: '' @ apos @ ''qasm_simulator'' @ apos
            @ ''.\<newline>'' @ ''Supported methods: ''
            @ str_of_set demo_host SUPPORTED_SIMULATION_METHODS))
   \<and> ''ibm_kyoto'' \<notin> AVAILABLE_BACKENDS
   \<and> (\<exists>msg. init demo_host demo_store ''ibm_kyoto'' ''qasm_simulator'' = Inl (ValueError msg))"
  using unsupported_method_rejected [of "''qasm_simulator''" demo_host demo_store "''ibm_brisbane''"]
    unsupported_method_rejected [of "''qasm_simulator''" demo_host demo_store "''ibm_kyoto''"]
  by (simp add: AVAILABLE_BACKENDS_def SUPPORTED_SIMULATION_METHODS_def)

text \<open>
  Claim C4: for an allowed backend and method, with the base path set, if the file at the
  resolved path is missing, or does not deserialize, or deserializes to an object without
  a \<^verbatim>\<open>run\<close> attribute, construction raises \<^verbatim>\<open>IOError\<close> with the resolved path
  in its message; and construction succeeds only if the file is there and deserializes
  to an object with a \<^verbatim>\<open>run\<close> attribute.
\<close>

theorem load_failure_wrapped:
  assumes "backend \<in> AVAILABLE_BACKENDS" and "method \<in> SUPPORTED_SIMULATION_METHODS"
    and "getenv_base_path h = Some base_path"
  shows
    "(fs (load_filepath base_path backend method) = None
      \<or> (\<exists>bytes e. fs (load_filepath base_path backend method) = Some bytes
            \<and> dill_load h bytes = Inl e)
      \<or> (\<exists>bytes obj. fs (load_filepath base_path backend method) = Some bytes
            \<and> dill_load h bytes = Inr obj \<and> \<not> hasattr obj ''run'')
      \<longrightarrow> (\<exists>e. init h fs backend method =
             Inl (IOError (''Failed to load AerSimulator from ''
               @ load_filepath base_path backend method @ '': '' @ str_exn e))))
     \<and> ((\<exists>self. init h fs backend method = Inr self)
      \<longrightarrow> (\<exists>bytes obj. fs (load_filepath base_path backend method) = Some bytes
            \<and> dill_load h bytes = Inr obj \<and> hasattr obj ''run''))"
proof -
  let ?p = "load_filepath base_path backend method"
  have i: "init h fs backend method =
    (case load_simulator h fs ?p of
       Inl e \<Rightarrow> Inl e
     | Inr sim \<Rightarrow> Inr \<lparr>attr_ibm_backend_name = Some backend,
          attr_simulation_method = Some method, attr_simulator = Some sim\<rparr>)"
    using assms by (rule init_valid)
  have a: "\<exists>e. init h fs backend method =
       Inl (IOError (''Failed to load AerSimulator from '' @ ?p @ '': '' @ str_exn e))"
    if "fs ?p = None"
  proof -
    have "init h fs backend method =
       Inl (IOError (''Failed to load AerSimulator from '' @ ?p @ '': '' @ str_exn
          (FileNotFoundError (''[Errno 2] No such file or directory: '' @ apos @ ?p @ apos))))"
      using that by (simp add: i load_simulator_cases)
    then show ?thesis by blast
  qed
  have b: "\<exists>e. init h fs backend method =
       Inl (IOError (''Failed to load AerSimulator from '' @ ?p @ '': '' @ str_exn e))"
    if "fs ?p = Some bytes" and "dill_load h bytes = Inl e" for bytes e
    using that by (auto simp: i load_simulator_cases)
  have c: "\<exists>e. init h fs backend method =
       Inl (IOError (''Failed to load AerSimulator from '' @ ?p @ '': '' @ str_exn e))"
    if "fs ?p = Some bytes" and "dill_load h bytes = Inr obj" and "\<not> hasattr obj ''run''"
    for bytes obj
  proof -
    have "init h fs backend method =
       Inl (IOError (''Failed to load AerSimulator from '' @ ?p @ '': '' @ str_exn
          (TypeError ''Loaded object is not a valid AerSimulator.'')))"
      using that by (simp add: i load_simulator_cases)
    then show ?thesis by blast
  qed
  have d: "\<exists>bytes obj. fs ?p = Some bytes \<and> dill_load h bytes = Inr obj \<and> hasattr obj ''run''"
    if "init h fs backend method = Inr self" for self
    using that by (auto simp: i load_simulator_cases split: option.splits sum.splits if_splits)
  show ?thesis
    using a b c d by blast
qed

theorem load_failure_wrapped_witness:
  "''ibm_brisbane'' \<in> AVAILABLE_BACKENDS \<and> ''ibm_sherbrooke'' \<in> AVAILABLE_BACKENDS
   \<and> ''aer_simulator_statevector'' \<in> SUPPORTED_SIMULATION_METHODS
   \<and> ''aer_simulator_unitary'' \<in> SUPPORTED_SIMULATION_METHODS
   \<and> ''aer_simulator_superop'' \<in> SUPPORTED_SIMULATION_METHODS
   \<and> getenv_base_path demo_host = Some ''/data''
   \<and> demo_store (load_filepath ''/data'' ''ibm_sherbrooke'' ''aer_simulator_statevector'') = None
   \<and> (\<exists>e. init demo_host demo_store ''ibm_sherbrooke'' ''aer_simulator_statevector'' =
         Inl (IOError (''Failed to load AerSimulator from ''
           @ ''/data/ibm_simulators/ibm_sherbrooke/aer_simulator_statevector.dill''
           @ '': '' @ str_exn e)))
   \<and> demo_store (load_filepath ''/data'' ''ibm_brisbane'' ''aer_simulator_unitary'')
        = Some ''truncated''
   \<and> dill_load demo_host ''truncated'' = Inl (Error ''invalid load key'')
   \<and> (\<exists>e. init demo_host demo_store ''ibm_brisbane'' ''aer_simulator_unitary'' =
         Inl (IOError (''Failed to load AerSimulator from ''
           @ ''/data/ibm_simulators/ibm_brisbane/aer_simulator_unitary.dill''
           @ '': '' @ str_exn e)))
   \<and> demo_store (load_filepath ''/data'' ''ibm_brisbane'' ''aer_simulator_superop'')
        = Some ''number''
   \<and> dill_load demo_host ''number'' = Inr (PyObj [''real'', ''imag''] 7)
   \<and> \<not> hasattr (PyObj [''real'', ''imag''] 7) ''run''
   \<and> (\<exists>e. init demo_host demo_store ''ibm_brisbane'' ''aer_simulator_superop'' =
         Inl (IOError (''Failed to load AerSimulator from ''
           @ ''/data/ibm_simulators/ibm_brisbane/aer_simulator_superop.dill''
           @ '': '' @ str_exn e)))
   \<and> (\<exists>self. init demo_host demo_store ''ibm_brisbane'' ''aer_simulator_statevector''
         = Inr self)
   \<and> (\<exists>bytes obj.
         demo_store (load_filepath ''/data'' ''ibm_brisbane'' ''aer_simulator_statevector'')
           = Some bytes
         \<and> dill_load demo_host bytes = Inr obj \<and> hasattr obj ''run'')"
proof -
  have v: "''ibm_brisbane'' \<in> AVAILABLE_BACKENDS" "''ibm_sherbrooke'' \<in> AVAILABLE_BACKENDS"
    "''aer_simulator_statevector'' \<in> SUPPORTED_SIMULATION_METHODS"
    "''aer_simulator_unitary'' \<in> SUPPORTED_SIMULATION_METHODS"
    "''aer_simulator_superop'' \<in> SUPPORTED_SIMULATION_METHODS"
    by (simp_all add: AVAILABLE_BACKENDS_def SUPPORTED_SIMULATION_METHODS_def)
  have b: "getenv_base_path demo_host = Some ''/data''"
    by (simp add: demo_host_def)
  have s: "demo_store (load_filepath ''/data'' ''ibm_sherbrooke'' ''aer_simulator_statevector'')
      = None"
    "demo_store (load_filepath ''/data'' ''ibm_brisbane'' ''aer_simulator_unitary'')
      = Some ''truncated''"
    "demo_store (load_filepath ''/data'' ''ibm_brisbane'' ''aer_simulator_superop'')
      = Some ''number''"
    "demo_store (load_filepath ''/data'' ''ibm_brisbane'' ''aer_simulator_statevector'')
      = Some ''simulator''"
    by (simp_all add: demo_paths demo_store_def)
  have l: "dill_load demo_host ''truncated'' = Inl (Error ''invalid load key'')"
    "dill_load demo_host ''number'' = Inr (PyObj [''real'', ''imag''] 7)"
    "dill_load demo_host ''simulator'' = Inr demo_simulator"
    by (simp_all add: demo_host_def)
  have r: "\<not> hasattr (PyObj [''real'', ''imag''] 7) ''run''" "hasattr demo_simulator ''run''"
    by (simp_all add: hasattr_def demo_simulator_def)
  have ok: "init demo_host demo_store ''ibm_brisbane'' ''aer_simulator_statevector'' =
      Inr \<lparr>attr_ibm_backend_name = Some ''ibm_brisbane'',
        attr_simulation_method = Some ''aer_simulator_statevector'',
        attr_simulator = Some demo_simulator\<rparr>"
    by (simp add: init_valid [OF v(1) v(3) b] load_simulator_cases s l r)
  note t1 = load_failure_wrapped [OF v(2) v(3) b, of demo_store]
    and t2 = load_failure_wrapped [OF v(1) v(4) b, of demo_store]
    and t3 = load_failure_wrapped [OF v(1) v(5) b, of demo_store]
    and t4 = load_failure_wrapped [OF v(1) v(3) b, of demo_store]
  have 1: "\<exists>e. init demo_host demo_store ''ibm_sherbrooke'' ''aer_simulator_statevector'' =
         Inl (IOError (''Failed to load AerSimulator from ''
           @ ''/data/ibm_simulators/ibm_sherbrooke/aer_simulator_statevector.dill''
           @ '': '' @ str_exn e))"
    using t1 s(1) by (simp only: demo_paths) simp
  have 2: "\<exists>e. init demo_host demo_store ''ibm_brisbane'' ''aer_simulator_unitary'' =
         Inl (IOError (''Failed to load AerSimulator from ''
           @ ''/data/ibm_simulators/ibm_brisbane/aer_simulator_unitary.dill''
           @ '': '' @ str_exn e))"
    using t2 s(2) l(1) by (simp only: demo_paths) simp
  have 3: "\<exists>e. init demo_host demo_store ''ibm_brisbane'' ''aer_simulator_superop'' =
         Inl (IOError (''Failed to load AerSimulator from ''
           @ ''/data/ibm_simulators/ibm_brisbane/aer_simulator_superop.dill''
           @ '': '' @ str_exn e))"
    using t3 s(3) l(2) r(1) by (simp only: demo_paths) simp
  have 4: "\<exists>bytes obj.
         demo_store (load_filepath ''/data'' ''ibm_brisbane'' ''aer_simulator_statevector'')
           = Some bytes
         \<and> dill_load demo_host bytes = Inr obj \<and> hasattr obj ''run''"
    using t4 ok by blast
  show ?thesis
    using v b s(1,2,3) l(1,2) r(1) 1 2 3 4 ok by simp
qed

text \<open>
  Claim C5, as stated, fails in two ways. With \<^verbatim>\<open>verbose=False\<close> a backend whose
  handle the service refuses is skipped without a line being printed. And when the
  directory of the first backend cannot be created, the exception of \<^verbatim>\<open>os.makedirs\<close>
  leaves the function: the second backend is never asked for.
\<close>

theorem bulk_save_tolerance_counterexample:
  "fst (service_backend sherbrooke_down_sdk (PyObj [''backend''] 10) ''ibm_sherbrooke'' ())
     = Inl (Error ''backend not found'')
   \<and> last (calls (snd (save_ibm_simulators sherbrooke_down_sdk ''ibm_quantum'' ''token''
        ''/data'' False empty_world)))
       = Call_backend (PyObj [''backend''] 10) ''ibm_sherbrooke''
   \<and> fst (save_ibm_simulators sherbrooke_down_sdk ''ibm_quantum'' ''token'' ''/data''
        False empty_world) = Inr ()
   \<and> stdout (snd (save_ibm_simulators sherbrooke_down_sdk ''ibm_quantum'' ''token'' ''/data''
        False empty_world)) = []
   \<and> fst (save_ibm_simulators blocked_directory_sdk ''ibm_quantum'' ''token'' ''/data''
        True empty_world) = Inl (Error ''[Errno 13] Permission denied'')
   \<and> calls (snd (save_ibm_simulators blocked_directory_sdk ''ibm_quantum'' ''token'' ''/data''
        True empty_world))
       = [Call_makedirs ''/data/ibm_simulators'',
          Call_QiskitRuntimeService ''ibm_quantum'' ''token'',
          Call_backend (PyObj [''backend''] 10) ''ibm_brisbane'',
          Call_makedirs ''/data/ibm_simulators/ibm_brisbane'']"
proof -
  have "fst (service_backend sherbrooke_down_sdk (PyObj [''backend''] 10) ''ibm_sherbrooke'' ())
     = Inl (Error ''backend not found'')"
    by (simp add: sherbrooke_down_sdk_def)
  moreover have "last (calls (snd (save_ibm_simulators sherbrooke_down_sdk ''ibm_quantum''
        ''token'' ''/data'' False empty_world)))
       = Call_backend (PyObj [''backend''] 10) ''ibm_sherbrooke''
   \<and> fst (save_ibm_simulators sherbrooke_down_sdk ''ibm_quantum'' ''token'' ''/data''
        False empty_world) = Inr ()
   \<and> stdout (snd (save_ibm_simulators sherbrooke_down_sdk ''ibm_quantum'' ''token'' ''/data''
        False empty_world)) = []"
    by (simp add: builder_eval sherbrooke_down_sdk_def)
  moreover have "fst (save_ibm_simulators blocked_directory_sdk ''ibm_quantum'' ''token''
        ''/data'' True empty_world) = Inl (Error ''[Errno 13] Permission denied'')
   \<and> calls (snd (save_ibm_simulators blocked_directory_sdk ''ibm_quantum'' ''token'' ''/data''
        True empty_world))
       = [Call_makedirs ''/data/ibm_simulators'',
          Call_QiskitRuntimeService ''ibm_quantum'' ''token'',
          Call_backend (PyObj [''backend''] 10) ''ibm_brisbane'',
          Call_makedirs ''/data/ibm_simulators/ibm_brisbane'']"
    by (simp add: builder_eval blocked_directory_sdk_def)
  ultimately show ?thesis by blast
qed

text \<open>
  Claim C5, amended: when the service client is created and every directory can be
  created, \<^verbatim>\<open>save_ibm_simulators\<close> returns normally, whatever the requests for backend
  handles and the steps for the methods do, and it asks for both backends. A refused
  backend handle ends only the round of that backend, and an exception in the step of one
  method ends only that step: in a run, every backend whose handle is obtained has a
  simulator asked of that handle for each of the ten methods, verbose or not. Each
  failure is printed as one line when \<^verbatim>\<open>verbose\<close> is true: a run then prints, for
  every refused backend, the line of its refusal, and for every other backend one line
  for each method, of the saved file or of the failure. Nothing is printed when
  \<^verbatim>\<open>verbose\<close> is false.
\<close>

theorem bulk_save_tolerance:
  "\<forall>p x. fst (os_makedirs sdk p x) = Inr () \<Longrightarrow>
   \<forall>x. \<exists>service. fst (QiskitRuntimeService sdk channel token x) = Inr service \<Longrightarrow>
     fst (save_ibm_simulators sdk channel token base_path verbose w) = Inr ()
   \<and> backend_requests (calls (snd (save_ibm_simulators sdk channel token base_path verbose w)))
       = backend_requests (calls w) @ target_backends
   \<and> (\<not> verbose \<longrightarrow>
        stdout (snd (save_ibm_simulators sdk channel token base_path verbose w)) = stdout w)
   \<and> (fst (service_backend sdk service b (outside w0)) = Inl e \<longrightarrow>
        fst (save_backend sdk verbose service root b w0) = Inr ()
        \<and> stdout (snd (save_backend sdk verbose service root b w0))
            = stdout w0 @ (if verbose
                then [''Failed to load backend '' @ apos @ b @ apos @ '': '' @ str_exn e]
                else []))
   \<and> (fst (save_method_try sdk verbose backend bdir m w0) = Inl e \<longrightarrow>
        stdout (save_method sdk verbose b backend bdir m w0)
          = stdout w0 @ (if verbose
              then [''Failed to save simulator for '' @ apos @ b @ apos
                      @ '' with method '' @ apos @ m @ apos @ '': '' @ str_exn e]
              else []))
   \<and> from_backend_calls
        (calls (fold (save_method sdk verbose b backend bdir) simulation_methods w0))
       = from_backend_calls (calls w0) @ replicate 10 backend
   \<and> (fst (service_backend sdk service b (outside w0)) = Inr h \<longrightarrow>
        fst (save_backend sdk verbose service root b w0) = Inr ()
        \<and> from_backend_calls (calls (snd (save_backend sdk verbose service root b w0)))
            = from_backend_calls (calls w0) @ replicate 10 h)
   \<and> (\<exists>service rounds.
        list_all2 (real_round sdk service base_path) target_backends rounds
        \<and> from_backend_calls
             (calls (snd (save_ibm_simulators sdk channel token base_path verbose w)))
            = from_backend_calls (calls w) @ spec_run_attempts rounds
        \<and> stdout (snd (save_ibm_simulators sdk channel token base_path verbose w))
            = stdout w @ (if verbose then spec_run_lines rounds else []))"
proof -
  assume mk: "\<forall>p x. fst (os_makedirs sdk p x) = Inr ()"
    and sv: "\<forall>x. \<exists>service. fst (QiskitRuntimeService sdk channel token x) = Inr service"
  have ten: "length simulation_methods = 10"
    by (simp add: simulation_methods_def)
  then have 6: "from_backend_calls
        (calls (fold (save_method sdk verbose b backend bdir) simulation_methods w0))
       = from_backend_calls (calls w0) @ replicate 10 backend"
    by (simp add: fold_save_method_from_backend_calls)
  have 3: "\<not> verbose \<longrightarrow>
        stdout (snd (save_ibm_simulators sdk channel token base_path verbose w)) = stdout w"
    using save_ibm_simulators_eqD [OF surjective_pairing] by blast
  note 1 = save_ibm_simulators_returns(1) [OF mk sv, of base_path verbose w]
    and 2 = save_ibm_simulators_returns(2) [OF mk sv, of base_path verbose w]
  have 4: "fst (service_backend sdk service b (outside w0)) = Inl e \<longrightarrow>
        fst (save_backend sdk verbose service root b w0) = Inr ()
        \<and> stdout (snd (save_backend sdk verbose service root b w0))
            = stdout w0 @ (if verbose
                then [''Failed to load backend '' @ apos @ b @ apos @ '': '' @ str_exn e]
                else [])"
    by (intro impI conjI) (erule save_backend_failure_logged(1,2))+
  have 5: "fst (save_method_try sdk verbose backend bdir m w0) = Inl e \<longrightarrow>
        stdout (save_method sdk verbose b backend bdir m w0)
          = stdout w0 @ (if verbose
              then [''Failed to save simulator for '' @ apos @ b @ apos
                      @ '' with method '' @ apos @ m @ apos @ '': '' @ str_exn e]
              else [])"
    by (intro impI) (erule save_method_failure_logged)
  have 7: "fst (service_backend sdk service b (outside w0)) = Inr h \<longrightarrow>
        fst (save_backend sdk verbose service root b w0) = Inr ()
        \<and> from_backend_calls (calls (snd (save_backend sdk verbose service root b w0)))
            = from_backend_calls (calls w0) @ replicate 10 h"
    using save_backend_returns [OF mk] save_backend_attempts [OF mk] ten
    by (intro impI conjI) simp_all
  have 8: "\<exists>service rounds.
        list_all2 (real_round sdk service base_path) target_backends rounds
        \<and> from_backend_calls
             (calls (snd (save_ibm_simulators sdk channel token base_path verbose w)))
            = from_backend_calls (calls w) @ spec_run_attempts rounds
        \<and> stdout (snd (save_ibm_simulators sdk channel token base_path verbose w))
            = stdout w @ (if verbose then spec_run_lines rounds else [])"
  proof -
    let ?run = "save_ibm_simulators sdk channel token base_path verbose w"
    from save_ibm_simulators_report [OF surjective_pairing, of sdk channel token base_path
        verbose w]
    obtain service rounds
      where n: "(\<exists>u. fst ?run = Inr u) \<longrightarrow> length rounds = length target_backends"
        and l: "list_all2 (real_round sdk service base_path)
          (take (length rounds) target_backends) rounds"
        and f: "from_backend_calls (calls (snd ?run))
          = from_backend_calls (calls w) @ spec_run_attempts rounds"
        and s: "stdout (snd ?run) = stdout w @ (if verbose then spec_run_lines rounds else [])"
      by blast
    from n 1 have "length rounds = length target_backends"
      by simp
    with l have "list_all2 (real_round sdk service base_path) target_backends rounds"
      by simp
    with f s show ?thesis
      by blast
  qed
  show ?thesis
    by (intro conjI; (rule 1 2 3 4 5 6 7 8))
qed

theorem bulk_save_tolerance_witness:
  "(\<forall>p x. fst (os_makedirs sherbrooke_down_sdk p x) = Inr ())
   \<and> (\<forall>x. \<exists>service.
         fst (QiskitRuntimeService sherbrooke_down_sdk ''ibm_quantum'' ''token'' x) = Inr service)
   \<and> fst (save_ibm_simulators sherbrooke_down_sdk ''ibm_quantum'' ''token'' ''/data'' True
        empty_world) = Inr ()
   \<and> backend_requests (calls (snd (save_ibm_simulators sherbrooke_down_sdk ''ibm_quantum''
        ''token'' ''/data'' True empty_world))) = [''ibm_brisbane'', ''ibm_sherbrooke'']
   \<and> fst (service_backend sherbrooke_down_sdk (PyObj [''backend''] 10) ''ibm_sherbrooke''
        (outside empty_world)) = Inl (Error ''backend not found'')
   \<and> stdout (snd (save_backend sherbrooke_down_sdk True (PyObj [''backend''] 10)
        ''/data/ibm_simulators'' ''ibm_sherbrooke'' empty_world))
       = [''Failed to load backend 'ibm_sherbrooke': backend not found'']
   \<and> fst (save_method_try no_calibration_sdk True (PyObj [''name''] 20)
        ''/data/ibm_simulators/ibm_brisbane'' ''aer_simulator_statevector'' empty_world)
       = Inl (Error ''no calibration data'')
   \<and> stdout (save_method no_calibration_sdk True ''ibm_brisbane'' (PyObj [''name''] 20)
        ''/data/ibm_simulators/ibm_brisbane'' ''aer_simulator_statevector'' empty_world)
       = [''Failed to save simulator for 'ibm_brisbane' with method 'aer_simulator_statevector': no calibration data'']
   \<and> fst (service_backend sherbrooke_down_sdk (PyObj [''backend''] 10) ''ibm_brisbane''
        (outside empty_world)) = Inr (PyObj [''name''] 20)
   \<and> from_backend_calls (calls (snd (save_backend sherbrooke_down_sdk True
        (PyObj [''backend''] 10) ''/data/ibm_simulators'' ''ibm_brisbane'' empty_world)))
       = replicate 10 (PyObj [''name''] 20)
   \<and> (\<exists>service rounds.
        list_all2 (real_round sherbrooke_down_sdk service ''/data'') target_backends rounds
        \<and> from_backend_calls (calls (snd (save_ibm_simulators sherbrooke_down_sdk
             ''ibm_quantum'' ''token'' ''/data'' True empty_world)))
            = spec_run_attempts rounds
        \<and> stdout (snd (save_ibm_simulators sherbrooke_down_sdk ''ibm_quantum'' ''token''
             ''/data'' True empty_world))
            = spec_run_lines rounds)
   \<and> from_backend_calls (calls (snd (save_ibm_simulators sherbrooke_down_sdk
        ''ibm_quantum'' ''token'' ''/data'' True empty_world)))
       = replicate 10 (PyObj [''name''] 20)
   \<and> stdout (snd (save_ibm_simulators sherbrooke_down_sdk ''ibm_quantum'' ''token''
        ''/data'' True empty_world))
       = map (\<lambda>m. ''Saved simulator '' @ apos @ ''/data/ibm_simulators/ibm_brisbane/'' @ m
               @ ''.dill'' @ apos) simulation_methods
         @ [''Failed to load backend 'ibm_sherbrooke': backend not found'']
   \<and> from_backend_calls (calls (snd (save_ibm_simulators sherbrooke_down_sdk
        ''ibm_quantum'' ''token'' ''/data'' False empty_world)))
       = replicate 10 (PyObj [''name''] 20)"
proof -
  let ?run = "save_ibm_simulators sherbrooke_down_sdk ''ibm_quantum'' ''token'' ''/data'' True
    empty_world"
  have 1: "\<forall>p x. fst (os_makedirs sherbrooke_down_sdk p x) = Inr ()"
    and 2: "\<forall>x. \<exists>service.
         fst (QiskitRuntimeService sherbrooke_down_sdk ''ibm_quantum'' ''token'' x) = Inr service"
    by (simp_all add: sherbrooke_down_sdk_def good_sdk_def)
  have 3: "\<forall>p x. fst (os_makedirs no_calibration_sdk p x) = Inr ()"
    and 4: "\<forall>x. \<exists>service.
         fst (QiskitRuntimeService no_calibration_sdk ''ibm_quantum'' ''token'' x) = Inr service"
    by (simp_all add: no_calibration_sdk_def good_sdk_def)
  have 5: "fst (service_backend sherbrooke_down_sdk (PyObj [''backend''] 10) ''ibm_sherbrooke''
        (outside empty_world)) = Inl (Error ''backend not found'')"
    by (simp add: sherbrooke_down_sdk_def)
  have 6: "fst (save_method_try no_calibration_sdk True (PyObj [''name''] 20)
        ''/data/ibm_simulators/ibm_brisbane'' ''aer_simulator_statevector'' empty_world)
       = Inl (Error ''no calibration data'')"
    by (simp add: save_method_try_def construct_simulator_def extern_def no_calibration_sdk_def)
  have 7: "backend_requests (calls empty_world) = []" "stdout empty_world = []"
    "from_backend_calls (calls empty_world) = []"
    by (simp_all add: empty_world_def backend_requests_def from_backend_calls_def)
  have 8: "fst (service_backend sherbrooke_down_sdk (PyObj [''backend''] 10) ''ibm_brisbane''
        (outside empty_world)) = Inr (PyObj [''name''] 20)"
    by (simp add: sherbrooke_down_sdk_def)
  have 9: "from_backend_calls (calls (snd ?run)) = replicate 10 (PyObj [''name''] 20)"
    by (simp add: builder_eval sherbrooke_down_sdk_def from_backend_calls_def ten_copies)
  have 10: "stdout (snd ?run)
       = map (\<lambda>m. ''Saved simulator '' @ apos @ ''/data/ibm_simulators/ibm_brisbane/'' @ m
               @ ''.dill'' @ apos) simulation_methods
         @ [''Failed to load backend 'ibm_sherbrooke': backend not found'']"
    by (simp add: builder_eval sherbrooke_down_sdk_def)
  have 11: "from_backend_calls (calls (snd (save_ibm_simulators sherbrooke_down_sdk
        ''ibm_quantum'' ''token'' ''/data'' False empty_world)))
       = replicate 10 (PyObj [''name''] 20)"
    by (simp add: builder_eval sherbrooke_down_sdk_def from_backend_calls_def ten_copies)
  note a = bulk_save_tolerance [OF 1 2, of "''/data''" True empty_world "PyObj [''backend''] 10"
      "''ibm_sherbrooke''" empty_world "Error ''backend not found''" "''/data/ibm_simulators''"]
  note b = bulk_save_tolerance [OF 3 4, of _ _ _ _ "''ibm_brisbane''" empty_world
      "Error ''no calibration data''" _ "PyObj [''name''] 20"
      "''/data/ibm_simulators/ibm_brisbane''" "''aer_simulator_statevector''"]
  note c = bulk_save_tolerance [OF 1 2, of _ True _ "PyObj [''backend''] 10"
      "''ibm_brisbane''" empty_world _ "''/data/ibm_simulators''" _ _ _ "PyObj [''name''] 20"]
  from a b c 1 2 5 6 7 8 9 10 11
  show ?thesis
    by (simp add: target_backends_def ten_copies)
qed

text \<open>
  Claim C6, as stated, fails: when the serializer raises after the file was opened for
  writing, the step is reported as failed and the file is left at the resolved path,
  holding the bytes written up to then. Nothing removes it.
\<close>

theorem failed_save_leaves_file_counterexample:
  "fst (save_method_try failing_dump_sdk True (PyObj [''name''] 20)
      ''/data/ibm_simulators/ibm_brisbane'' ''aer_simulator_statevector'' empty_world)
     = Inl (TypeError ''cannot pickle object'')
   \<and> files empty_world ''/data/ibm_simulators/ibm_brisbane/aer_simulator_statevector.dill''
     = None
   \<and> files (save_method failing_dump_sdk True ''ibm_brisbane'' (PyObj [''name''] 20)
        ''/data/ibm_simulators/ibm_brisbane'' ''aer_simulator_statevector'' empty_world)
       ''/data/ibm_simulators/ibm_brisbane/aer_simulator_statevector.dill''
     = Some [CHR 0x80, CHR 0x04]
   \<and> fst (save_ibm_simulators failing_dump_sdk ''ibm_quantum'' ''token'' ''/data'' True
        empty_world) = Inr ()
   \<and> files (snd (save_ibm_simulators failing_dump_sdk ''ibm_quantum'' ''token'' ''/data'' True
        empty_world))
       ''/data/ibm_simulators/ibm_brisbane/aer_simulator_statevector.dill''
     = Some [CHR 0x80, CHR 0x04]"
  by (simp add: builder_eval failing_dump_sdk_def)

text \<open>
  Claim C6, amended: a step that fails while the simulator is built or configured, or
  when the file is opened, leaves every file as it was (no file is created, and a file
  that was at the resolved path stays). Once the file is opened, the file at the resolved
  path holds exactly the bytes the serializer wrote, whether the serializer raised or
  not. No step touches a file at any other path.
\<close>

theorem failed_save_file_state:
  "(fst (construct_simulator sdk backend m w) = Inl e \<longrightarrow>
      files (save_method sdk verbose bn backend bdir m w) = files w)
   \<and> (construct_simulator sdk backend m w = (Inr sim, w1)
        \<and> fst (open_wb sdk (os_path_join bdir [filename m]) (outside w1)) = Inl e \<longrightarrow>
      files (save_method sdk verbose bn backend bdir m w) = files w)
   \<and> (construct_simulator sdk backend m w = (Inr sim, w1)
        \<and> open_wb sdk (os_path_join bdir [filename m]) (outside w1) = (Inr u, x)
        \<and> dill_dump sdk sim x = ((written, raised), y) \<longrightarrow>
      files (save_method sdk verbose bn backend bdir m w)
        = (files w)(os_path_join bdir [filename m] \<mapsto> written)
      \<and> fst (save_method_try sdk verbose backend bdir m w)
        = (case raised of Some e' \<Rightarrow> Inl e' | None \<Rightarrow> Inr ()))
   \<and> (q \<noteq> os_path_join bdir [filename m] \<longrightarrow>
      files (save_method sdk verbose bn backend bdir m w) q = files w q)"
proof -
  let ?p = "os_path_join bdir [filename m]"
  have 1: "fst (construct_simulator sdk backend m w) = Inl e \<longrightarrow>
      files (save_method sdk verbose bn backend bdir m w) = files w"
    by (simp add: save_method_files save_method_try_construction_failed)
  have 2: "construct_simulator sdk backend m w = (Inr sim, w1)
        \<and> fst (open_wb sdk ?p (outside w1)) = Inl e \<longrightarrow>
      files (save_method sdk verbose bn backend bdir m w) = files w"
    by (auto simp: save_method_files save_method_try_constructed
        serialize_simulator_files(1))
  have 3: "construct_simulator sdk backend m w = (Inr sim, w1)
        \<and> open_wb sdk ?p (outside w1) = (Inr u, x)
        \<and> dill_dump sdk sim x = ((written, raised), y) \<longrightarrow>
      files (save_method sdk verbose bn backend bdir m w) = (files w)(?p \<mapsto> written)
      \<and> fst (save_method_try sdk verbose backend bdir m w)
        = (case raised of Some e' \<Rightarrow> Inl e' | None \<Rightarrow> Inr ())"
    by (auto simp: save_method_files save_method_try_constructed
        serialize_simulator_files(2,3))
  have 4: "q \<noteq> ?p \<longrightarrow> files (save_method sdk verbose bn backend bdir m w) q = files w q"
    by (simp add: save_method_props(4))
  show ?thesis
    by (intro conjI; (rule 1 2 3 4))
qed

theorem failed_save_file_state_witness:
  "fst (construct_simulator no_calibration_sdk (PyObj [''name''] 20)
      ''aer_simulator_statevector'' empty_world) = Inl (Error ''no calibration data'')
   \<and> files (save_method no_calibration_sdk True ''ibm_brisbane'' (PyObj [''name''] 20)
        ''/data/ibm_simulators/ibm_brisbane'' ''aer_simulator_statevector'' empty_world)
       = files empty_world
   \<and> fst (open_wb read_only_sdk
        (os_path_join ''/data/ibm_simulators/ibm_brisbane''
           [filename ''aer_simulator_statevector''])
        ()) = Inl (Error ''[Errno 30] Read-only file system'')
   \<and> files (save_method read_only_sdk True ''ibm_brisbane'' (PyObj [''name''] 20)
        ''/data/ibm_simulators/ibm_brisbane'' ''aer_simulator_statevector'' empty_world)
       = files empty_world
   \<and> dill_dump failing_dump_sdk demo_simulator ()
       = (([CHR 0x80, CHR 0x04], Some (TypeError ''cannot pickle object'')), ())
   \<and> files (save_method failing_dump_sdk True ''ibm_brisbane'' (PyObj [''name''] 20)
        ''/data/ibm_simulators/ibm_brisbane'' ''aer_simulator_statevector'' empty_world)
       = (files empty_world)
           (''/data/ibm_simulators/ibm_brisbane/aer_simulator_statevector.dill''
              \<mapsto> [CHR 0x80, CHR 0x04])
   \<and> fst (save_method_try failing_dump_sdk True (PyObj [''name''] 20)
        ''/data/ibm_simulators/ibm_brisbane'' ''aer_simulator_statevector'' empty_world)
       = Inl (TypeError ''cannot pickle object'')"
proof -
  let ?w1 = "empty_world\<lparr>calls := [Call_from_backend (PyObj [''name''] 20),
      Call_set_options demo_simulator ''statevector'' ''CPU'']\<rparr>"
  let ?p = "os_path_join ''/data/ibm_simulators/ibm_brisbane''
      [filename ''aer_simulator_statevector'']"
  have p: "?p = ''/data/ibm_simulators/ibm_brisbane/aer_simulator_statevector.dill''"
    by (simp add: os_path_join_def join_component_def filename_def suffix_to_prefix)
  have 1: "fst (construct_simulator no_calibration_sdk (PyObj [''name''] 20)
      ''aer_simulator_statevector'' empty_world) = Inl (Error ''no calibration data'')"
    by (simp add: construct_simulator_def extern_def no_calibration_sdk_def)
  have 2: "construct_simulator read_only_sdk (PyObj [''name''] 20)
      ''aer_simulator_statevector'' empty_world = (Inr demo_simulator, ?w1)"
    by (simp add: construct_simulator_def extern_def read_only_sdk_def good_sdk_def
        empty_world_def base_method_def device_def suffix_to_prefix)
  have 3: "fst (open_wb read_only_sdk ?p (outside ?w1))
      = Inl (Error ''[Errno 30] Read-only file system'')"
    by (simp add: read_only_sdk_def)
  have 4: "construct_simulator failing_dump_sdk (PyObj [''name''] 20)
      ''aer_simulator_statevector'' empty_world = (Inr demo_simulator, ?w1)"
    by (simp add: construct_simulator_def extern_def failing_dump_sdk_def good_sdk_def
        empty_world_def base_method_def device_def suffix_to_prefix)
  have 5: "open_wb failing_dump_sdk ?p (outside ?w1) = (Inr (), ())"
    by (simp add: failing_dump_sdk_def good_sdk_def)
  have 6: "dill_dump failing_dump_sdk demo_simulator ()
       = (([CHR 0x80, CHR 0x04], Some (TypeError ''cannot pickle object'')), ())"
    by (simp add: failing_dump_sdk_def)
  from failed_save_file_state [of no_calibration_sdk "PyObj [''name''] 20"
      "''aer_simulator_statevector''" empty_world "Error ''no calibration data''" True
      "''ibm_brisbane''" "''/data/ibm_simulators/ibm_brisbane''"]
    failed_save_file_state [of read_only_sdk "PyObj [''name''] 20"
      "''aer_simulator_statevector''" empty_world "Error ''[Errno 30] Read-only file system''"
      True "''ibm_brisbane''" "''/data/ibm_simulators/ibm_brisbane''" demo_simulator ?w1]
    failed_save_file_state [of failing_dump_sdk "PyObj [''name''] 20"
      "''aer_simulator_statevector''" empty_world _ True
      "''ibm_brisbane''" "''/data/ibm_simulators/ibm_brisbane''" demo_simulator ?w1
      "()" "()" "[CHR 0x80, CHR 0x04]" "Some (TypeError ''cannot pickle object'')" "()"]
    1 2 3 4 5 6
  show ?thesis
    by (simp add: p)
qed



text \<open>
  Claim C8: \<^verbatim>\<open>run\<close> first transpiles the circuit, through \<^verbatim>\<open>transpile_circuit\<close>,
  for the loaded simulator at optimization level 1; it then creates a sampler on the
  loaded simulator, submits the list of the one transpiled circuit to it, and returns
  what the sampler's \<^verbatim>\<open>run\<close> returns. An exception of the transpiler or of the
  creation of the sampler ends \<^verbatim>\<open>run\<close> with that exception.
\<close>

theorem run_transpiles_then_samples:
  "simulator self = Inr sim \<Longrightarrow>
     transpile_circuit sdk self circuit w
       = extern (Call_transpile circuit sim 1) (transpile sdk circuit sim 1) w
   \<and> (transpile sdk circuit sim 1 (outside w) = (Inr transpiled, x1)
         \<and> Sampler sdk sim x1 = (Inr sampler, x2)
       \<longrightarrow> fst (run sdk self circuit w) = fst (sampler_run sdk sampler [transpiled] x2)
         \<and> calls (snd (run sdk self circuit w))
             = calls w @ [Call_transpile circuit sim 1, Call_Sampler sim,
                          Call_sampler_run sampler [transpiled]])
   \<and> (transpile sdk circuit sim 1 (outside w) = (Inl e, x1)
       \<longrightarrow> fst (run sdk self circuit w) = Inl e
         \<and> calls (snd (run sdk self circuit w)) = calls w @ [Call_transpile circuit sim 1])
   \<and> (transpile sdk circuit sim 1 (outside w) = (Inr transpiled, x1)
         \<and> Sampler sdk sim x1 = (Inl e, x2)
       \<longrightarrow> fst (run sdk self circuit w) = Inl e
         \<and> calls (snd (run sdk self circuit w))
             = calls w @ [Call_transpile circuit sim 1, Call_Sampler sim])"
proof -
  assume "simulator self = Inr sim"
  then have s: "read_simulator self = Inr sim"
    by (simp add: simulator_def)
  have t: "transpile_circuit sdk self circuit w
       = extern (Call_transpile circuit sim 1) (transpile sdk circuit sim 1) w"
    by (simp add: transpile_circuit_def s)
  have a: "fst (run sdk self circuit w) = fst (sampler_run sdk sampler [transpiled] x2)
         \<and> calls (snd (run sdk self circuit w))
             = calls w @ [Call_transpile circuit sim 1, Call_Sampler sim,
                          Call_sampler_run sampler [transpiled]]"
    if "transpile sdk circuit sim 1 (outside w) = (Inr transpiled, x1)"
      and "Sampler sdk sim x1 = (Inr sampler, x2)"
    using that by (simp add: run_def t s extern_def split: prod.splits)
  have b: "fst (run sdk self circuit w) = Inl e
         \<and> calls (snd (run sdk self circuit w)) = calls w @ [Call_transpile circuit sim 1]"
    if "transpile sdk circuit sim 1 (outside w) = (Inl e, x1)"
    using that by (simp add: run_def t s extern_def)
  have c: "fst (run sdk self circuit w) = Inl e
         \<and> calls (snd (run sdk self circuit w))
             = calls w @ [Call_transpile circuit sim 1, Call_Sampler sim]"
    if "transpile sdk circuit sim 1 (outside w) = (Inr transpiled, x1)"
      and "Sampler sdk sim x1 = (Inl e, x2)"
    using that by (simp add: run_def t s extern_def)
  show ?thesis
    using t a b c by blast
qed

theorem run_transpiles_then_samples_witness:
  "simulator demo_runner = Inr demo_simulator
   \<and> transpile good_sdk (PyObj [''draw''] 3) demo_simulator 1 (outside empty_world)
       = (Inr (PyObj [''draw''] 103), ())
   \<and> Sampler good_sdk demo_simulator () = (Inr (PyObj [''run''] 40), ())
   \<and> fst (run good_sdk demo_runner (PyObj [''draw''] 3) empty_world)
       = Inr (PyObj [''result''] 50)
   \<and> calls (snd (run good_sdk demo_runner (PyObj [''draw''] 3) empty_world))
       = [Call_transpile (PyObj [''draw''] 3) demo_simulator 1, Call_Sampler demo_simulator,
          Call_sampler_run (PyObj [''run''] 40) [PyObj [''draw''] 103]]"
proof -
  have 1: "simulator demo_runner = Inr demo_simulator"
    by (simp add: simulator_def read_simulator_def demo_runner_def)
  have 2: "transpile good_sdk (PyObj [''draw''] 3) demo_simulator 1 (outside empty_world)
       = (Inr (PyObj [''draw''] 103), ())"
    by (simp add: good_sdk_def)
  have 3: "Sampler good_sdk demo_simulator () = (Inr (PyObj [''run''] 40), ())"
    by (simp add: good_sdk_def)
  have 4: "fst (sampler_run good_sdk (PyObj [''run''] 40) [PyObj [''draw''] 103] ())
     = Inr (PyObj [''result''] 50)"
    by (simp add: good_sdk_def)
  have 5: "calls empty_world = []"
    by (simp add: empty_world_def)
  from run_transpiles_then_samples [OF 1, of good_sdk "PyObj [''draw''] 3" empty_world
      "PyObj [''draw''] 103" "()" "PyObj [''run''] 40" "()"] 1 2 3 4 5
  show ?thesis by simp
qed

text \<open>
  Claim C9: for an allowed backend and method, with the base path set, if the file at the
  resolved path is there and deserializes to an object with a \<^verbatim>\<open>run\<close> attribute,
  construction succeeds, and on the new instance the accessors give the backend name and
  the method name that were passed, the object that was loaded, and the full sets of
  backend names and method names.
\<close>

theorem construction_succeeds:
  assumes "backend \<in> AVAILABLE_BACKENDS" and "method \<in> SUPPORTED_SIMULATION_METHODS"
    and "getenv_base_path h = Some base_path"
    and "fs (load_filepath base_path backend method) = Some bytes"
    and "dill_load h bytes = Inr obj" and "hasattr obj ''run''"
  shows "\<exists>self. init h fs backend method = Inr self
     \<and> ibm_backend self = Inr backend
     \<and> simulation_method self = Inr method
     \<and> simulator self = Inr obj
     \<and> available_backends self = AVAILABLE_BACKENDS
     \<and> available_simulation_methods self = SUPPORTED_SIMULATION_METHODS"
proof -
  have "init h fs backend method =
      Inr \<lparr>attr_ibm_backend_name = Some backend, attr_simulation_method = Some method,
        attr_simulator = Some obj\<rparr>"
    using assms(4-6) by (simp add: init_valid [OF assms(1-3)] load_simulator_cases)
  then show ?thesis
    by (simp add: ibm_backend_def simulation_method_def simulator_def
        read_ibm_backend_name_def read_simulation_method_def read_simulator_def
        available_backends_def available_simulation_methods_def)
qed

theorem construction_succeeds_witness:
  "''ibm_brisbane'' \<in> AVAILABLE_BACKENDS
   \<and> ''aer_simulator_statevector'' \<in> SUPPORTED_SIMULATION_METHODS
   \<and> getenv_base_path demo_host = Some ''/data''
   \<and> demo_store (load_filepath ''/data'' ''ibm_brisbane'' ''aer_simulator_statevector'')
        = Some ''simulator''
   \<and> dill_load demo_host ''simulator'' = Inr demo_simulator
   \<and> hasattr demo_simulator ''run''
   \<and> (\<exists>self. init demo_host demo_store ''ibm_brisbane'' ''aer_simulator_statevector'' = Inr self
       \<and> ibm_backend self = Inr ''ibm_brisbane''
       \<and> simulation_method self = Inr ''aer_simulator_statevector''
       \<and> simulator self = Inr demo_simulator)"
proof -
  have 1: "''ibm_brisbane'' \<in> AVAILABLE_BACKENDS"
    by (simp add: AVAILABLE_BACKENDS_def)
  have 2: "''aer_simulator_statevector'' \<in> SUPPORTED_SIMULATION_METHODS"
    by (simp add: SUPPORTED_SIMULATION_METHODS_def)
  have 3: "getenv_base_path demo_host = Some ''/data''"
    by (simp add: demo_host_def)
  have 4: "demo_store (load_filepath ''/data'' ''ibm_brisbane'' ''aer_simulator_statevector'')
        = Some ''simulator''"
    by (simp add: demo_paths demo_store_def)
  have 5: "dill_load demo_host ''simulator'' = Inr demo_simulator"
    by (simp add: demo_host_def)
  have 6: "hasattr demo_simulator ''run''"
    by (simp add: hasattr_def demo_simulator_def)
  from construction_succeeds [where fs = demo_store, OF 1 2 3 4 5 6] 1 2 3 4 5 6 show ?thesis
    by blast
qed

text \<open>
  Claim C10: the methods the Runner accepts are the ten distinct methods the Builder
  saves, and the backends the Runner accepts are the two the Builder targets. The paths
  the Builder resolves for its backends and methods are the paths the Runner resolves for
  the names it accepts: every file a run of the Builder creates or changes is at a path
  that a valid construction resolves, and a valid construction loads from the path to
  which the Builder saves that backend and method.
\<close>

theorem allow_lists_agree:
  "set simulation_methods = SUPPORTED_SIMULATION_METHODS
   \<and> distinct simulation_methods \<and> length simulation_methods = 10
   \<and> set target_backends = AVAILABLE_BACKENDS
   \<and> distinct target_backends \<and> length target_backends = 2
   \<and> (\<lambda>(b, m). save_filepath base_path b m) ` (set target_backends \<times> set simulation_methods)
       = (\<lambda>(b, m). load_filepath base_path b m)
           ` (AVAILABLE_BACKENDS \<times> SUPPORTED_SIMULATION_METHODS)
   \<and> (files (snd (save_ibm_simulators sdk channel token base_path verbose w)) p \<noteq> files w p
       \<longrightarrow> (\<exists>b\<in>AVAILABLE_BACKENDS. \<exists>m\<in>SUPPORTED_SIMULATION_METHODS.
              p = load_filepath base_path b m))
   \<and> (b \<in> AVAILABLE_BACKENDS \<and> m \<in> SUPPORTED_SIMULATION_METHODS
        \<and> getenv_base_path h = Some base_path
       \<longrightarrow> init h fs b m =
            (case load_simulator h fs (save_filepath base_path b m) of
               Inl e \<Rightarrow> Inl e
             | Inr sim \<Rightarrow> Inr \<lparr>attr_ibm_backend_name = Some b,
                 attr_simulation_method = Some m, attr_simulator = Some sim\<rparr>))"
proof -
  have 1: "distinct simulation_methods" "length simulation_methods = 10"
    by (simp_all add: simulation_methods_def)
  have 2: "distinct target_backends" "length target_backends = 2"
    by (simp_all add: target_backends_def)
  have 3: "(\<lambda>(b, m). save_filepath base_path b m) ` (set target_backends \<times> set simulation_methods)
       = (\<lambda>(b, m). load_filepath base_path b m)
           ` (AVAILABLE_BACKENDS \<times> SUPPORTED_SIMULATION_METHODS)"
    by (simp add: set_target_backends set_simulation_methods save_filepath_eq_load_filepath)
  have 4: "files (snd (save_ibm_simulators sdk channel token base_path verbose w)) p \<noteq> files w p
       \<longrightarrow> (\<exists>b\<in>AVAILABLE_BACKENDS. \<exists>m\<in>SUPPORTED_SIMULATION_METHODS.
              p = load_filepath base_path b m)"
    by (intro impI) (erule written_paths_are_runner_paths)
  have 5: "b \<in> AVAILABLE_BACKENDS \<and> m \<in> SUPPORTED_SIMULATION_METHODS
        \<and> getenv_base_path h = Some base_path
       \<longrightarrow> init h fs b m =
            (case load_simulator h fs (save_filepath base_path b m) of
               Inl e \<Rightarrow> Inl e
             | Inr sim \<Rightarrow> Inr \<lparr>attr_ibm_backend_name = Some b,
                 attr_simulation_method = Some m, attr_simulator = Some sim\<rparr>)"
    by (simp add: save_filepath_eq_load_filepath init_valid)
  show ?thesis
    by (intro conjI; (rule set_simulation_methods set_target_backends 1 2 3 4 5))
qed

theorem allow_lists_agree_witness:
  "files (snd (save_ibm_simulators good_sdk ''ibm_quantum'' ''token'' ''/data'' True
       empty_world)) ''/data/ibm_simulators/ibm_brisbane/aer_simulator_statevector.dill''
     = Some ''simulator''
   \<and> files empty_world ''/data/ibm_simulators/ibm_brisbane/aer_simulator_statevector.dill''
     = None
   \<and> (\<exists>b\<in>AVAILABLE_BACKENDS. \<exists>m\<in>SUPPORTED_SIMULATION_METHODS.
        ''/data/ibm_simulators/ibm_brisbane/aer_simulator_statevector.dill''
          = load_filepath ''/data'' b m)
   \<and> ''ibm_brisbane'' \<in> AVAILABLE_BACKENDS
   \<and> ''aer_simulator_statevector'' \<in> SUPPORTED_SIMULATION_METHODS
   \<and> getenv_base_path demo_host = Some ''/data''
   \<and> init demo_host
        (files (snd (save_ibm_simulators good_sdk ''ibm_quantum'' ''token'' ''/data'' True
           empty_world)))
        ''ibm_brisbane'' ''aer_simulator_statevector''
       = Inr \<lparr>attr_ibm_backend_name = Some ''ibm_brisbane'',
           attr_simulation_method = Some ''aer_simulator_statevector'',
           attr_simulator = Some demo_simulator\<rparr>"
proof -
  let ?p = "''/data/ibm_simulators/ibm_brisbane/aer_simulator_statevector.dill''"
  let ?fs = "files (snd (save_ibm_simulators good_sdk ''ibm_quantum'' ''token'' ''/data'' True
       empty_world))"
  have 1: "?fs ?p = Some ''simulator''"
    by (simp add: builder_eval)
  have 2: "files empty_world ?p = None"
    by (simp add: empty_world_def)
  have 3: "''ibm_brisbane'' \<in> AVAILABLE_BACKENDS"
    "''aer_simulator_statevector'' \<in> SUPPORTED_SIMULATION_METHODS"
    "getenv_base_path demo_host = Some ''/data''"
    by (simp_all add: AVAILABLE_BACKENDS_def SUPPORTED_SIMULATION_METHODS_def demo_host_def)
  have 4: "save_filepath ''/data'' ''ibm_brisbane'' ''aer_simulator_statevector'' = ?p"
    by (simp add: save_filepath_eq_load_filepath demo_paths)
  have 5: "load_simulator demo_host ?fs ?p = Inr demo_simulator"
    by (simp add: load_simulator_cases 1 demo_host_def hasattr_def demo_simulator_def)
  from allow_lists_agree [of "''/data''" good_sdk "''ibm_quantum''" "''token''" True empty_world
      ?p "''ibm_brisbane''" "''aer_simulator_statevector''" demo_host ?fs] 1 2 3 4 5
  show ?thesis
    by simp
qed

end
